theory Spec2Isabelle
  imports Complex_Main
begin

section \<open>The Python fragment used by \<open>models/pnn.py\<close>\<close>

text \<open>
  \<open>models/pnn.py\<close> defines one class, \<open>PNN(BaseModel)\<close>, with a constructor and a
  \<open>forward\<close> method. Both are glue: they call \<open>BaseModel\<close> (module \<open>.basemodel\<close>),
  \<open>deepctr_torch\<close> and \<open>torch\<close>, none of which is defined in the file. The model
  below keeps every statement of the two methods, takes the callees as a record of
  functions, and makes every way of leaving a method by an exception a value.

  An exception has an origin: it is raised by a statement or expression of
  \<open>pnn.py\<close> itself (\<open>Here\<close>), or it comes out of a callee (\<open>Callee\<close>), whose
  exceptions are left abstract.
\<close>

datatype exn =
    ValueError string
  | TypeError
  | IndexError
  | AttributeError
  | UnboundLocalError
  | OverflowError

datatype 'x failure = Here exn | Callee 'x

text \<open>
  The values the \<open>flag\<close> attribute is given: \<open>None\<close> (the default), an integer (any
  value without membership test behaves like it), a string, or a list of strings.
\<close>

datatype pyval = PyNone | PyInt int | PyStr string | PyList "string list"

fun startswith :: "string \<Rightarrow> string \<Rightarrow> bool" where
  "startswith [] s = True"
| "startswith (c # cs) [] = False"
| "startswith (c # cs) (d # ds) = (c = d \<and> startswith cs ds)"

text \<open>\<open>str_in n s\<close> is Python's \<open>n in s\<close> on two strings: \<open>n\<close> occurs in \<open>s\<close>.\<close>

fun str_in :: "string \<Rightarrow> string \<Rightarrow> bool" where
  "str_in n [] = (n = [])"
| "str_in n (d # ds) = (startswith n (d # ds) \<or> str_in n ds)"

text \<open>
  \<open>py_in n v\<close> is \<open>n in v\<close> for a string \<open>n\<close>: a substring test on a string, an
  element test on a list, and a \<open>TypeError\<close> on a value that is no container.
\<close>

fun py_in :: "string \<Rightarrow> pyval \<Rightarrow> exn + bool" where
  "py_in n PyNone = Inl TypeError"
| "py_in n (PyInt i) = Inl TypeError"
| "py_in n (PyStr s) = Inr (str_in n s)"
| "py_in n (PyList xs) = Inr (n \<in> set xs)"

text \<open>\<open>xs[-1]\<close> on a list or tuple.\<close>

definition index_last :: "'a list \<Rightarrow> exn + 'a" where
  "index_last xs = (case xs of [] \<Rightarrow> Inl IndexError | _ # _ \<Rightarrow> Inr (last xs))"

subsection \<open>\<open>int(m / 2)\<close>\<close>

text \<open>
  Line 49 computes \<open>int(num_inputs * (num_inputs - 1) / 2)\<close>. The product is an exact
  Python integer; \<open>/\<close> is true division, whose result is the IEEE double nearest to the
  quotient (ties to even), or an \<open>OverflowError\<close> when that is beyond the doubles;
  \<open>int\<close> then truncates towards zero. Halving is exact on doubles of this size, so
  the double nearest to \<open>m / 2\<close> is half the double nearest to \<open>m\<close>, and the latter is
  \<open>m\<close> rounded to 53 significant bits.
\<close>

function bit_length :: "int \<Rightarrow> nat" where
  "bit_length n = (if n \<le> 0 then 0 else Suc (bit_length (n div 2)))"
  by pat_completeness auto
termination
  by (relation "measure nat") auto

declare bit_length.simps [simp del]

definition round_to_double :: "int \<Rightarrow> int" where
  "round_to_double m =
     (let b = bit_length m in
      if b \<le> 53 then m
      else
        let e = b - 53;
            q = m div 2 ^ e;
            r = m mod 2 ^ e;
            q' = (if 2 ^ e < 2 * r \<or> (2 * r = 2 ^ e \<and> odd q) then q + 1 else q)
        in q' * 2 ^ e)"

definition int_truediv2 :: "int \<Rightarrow> exn + int" where
  "int_truediv2 m =
     (let r = round_to_double \<bar>m\<bar> in
      if 2 ^ 1025 \<le> r then Inl OverflowError
      else Inr (sgn m * (r div 2)))"

text \<open>Line 49: \<open>num_pairs = int(num_inputs * (num_inputs - 1) / 2)\<close>.\<close>

definition num_pairs_of :: "int \<Rightarrow> exn + int" where
  "num_pairs_of num_inputs = int_truediv2 (num_inputs * (num_inputs - 1))"

text \<open>
  Lines 47 to 56: \<open>product_out_dim\<close> starts at 0 and grows by \<open>num_pairs\<close> in the
  branch of each enabled product.
\<close>

definition product_out_dim :: "bool \<Rightarrow> bool \<Rightarrow> int \<Rightarrow> int" where
  "product_out_dim use_inner' use_outter' num_pairs =
     (let d0 = 0;
          d1 = (if use_inner' then d0 + num_pairs else d0);
          d2 = (if use_outter' then d1 + num_pairs else d1)
      in d2)"

section \<open>Objects\<close>

text \<open>
  Objects of the callees (layers, the embedding dictionary, feature columns,
  parameters) are opaque values of a type \<open>'o\<close>; tensors are values of a type \<open>'t\<close>.
  The attributes of a \<open>PNN\<close> that \<open>BaseModel\<close> manages and \<open>pnn.py\<close> reads are the
  fields of \<open>basemodel\<close>, with \<open>rest\<close> for everything else \<open>BaseModel\<close> keeps; the
  attributes \<open>pnn.py\<close> assigns are the other fields of \<open>pnn\<close>. \<open>innerproduct\<close> and
  \<open>outterproduct\<close> are assigned only under their toggle: \<open>None\<close> is the attribute
  that does not exist.
\<close>

record 'o basemodel =
  flag :: pyval
  dnn_feature_columns :: 'o
  embedding_dict :: 'o
  embedding_size :: int
  out :: 'o
  rest :: 'o

record 'o pnn =
  base :: "'o basemodel"
  use_inner :: bool
  use_outter :: bool
  kernel_type :: string
  task :: string
  innerproduct :: "'o option"
  outterproduct :: "'o option"
  dnn :: 'o
  dnn_linear :: 'o

text \<open>The parameters of \<open>PNN.__init__\<close> (line 30 to 33).\<close>

record 'o pnn_args =
  arg_dnn_feature_columns :: 'o
  arg_dnn_hidden_units :: "int list"
  arg_l2_reg_embedding :: real
  arg_l2_reg_dnn :: real
  arg_init_std :: real
  arg_seed :: int
  arg_dnn_dropout :: real
  arg_dnn_activation :: string
  arg_use_inner :: bool
  arg_use_outter :: bool
  arg_kernel_type :: string
  arg_task :: string
  arg_device :: string
  arg_gpus :: "int list option"
  arg_flag :: pyval
  arg_domain_column :: "string option"
  arg_num_domains :: "int option"
  arg_meta_dnn_hidden_units :: "int list"

text \<open>The defaults of the signature, for given feature columns.\<close>

definition default_args :: "'o \<Rightarrow> 'o pnn_args" where
  "default_args cols =
     \<lparr> arg_dnn_feature_columns = cols,
       arg_dnn_hidden_units = [128, 128],
       arg_l2_reg_embedding = 1 / 100000,
       arg_l2_reg_dnn = 0,
       arg_init_std = 1 / 10000,
       arg_seed = 1024,
       arg_dnn_dropout = 0,
       arg_dnn_activation = ''relu'',
       arg_use_inner = True,
       arg_use_outter = False,
       arg_kernel_type = ''mat'',
       arg_task = ''binary'',
       arg_device = ''cpu'',
       arg_gpus = None,
       arg_flag = PyNone,
       arg_domain_column = None,
       arg_num_domains = None,
       arg_meta_dnn_hidden_units = [32, 64, 32] \<rparr>"

text \<open>The arguments of the call \<open>super(PNN, self).__init__(...)\<close> (line 35 to 37).\<close>

record 'o base_args =
  super_linear_feature_columns :: "'o list"
  super_dnn_feature_columns :: 'o
  super_l2_reg_linear :: real
  super_l2_reg_embedding :: real
  super_init_std :: real
  super_seed :: int
  super_task :: string
  super_device :: string
  super_gpus :: "int list option"
  super_flag :: pyval
  super_domain_column :: "string option"
  super_num_domains :: "int option"
  super_meta_dnn_hidden_units :: "int list"

definition super_args :: "'o pnn_args \<Rightarrow> 'o base_args" where
  "super_args a =
     \<lparr> super_linear_feature_columns = [],
       super_dnn_feature_columns = arg_dnn_feature_columns a,
       super_l2_reg_linear = 0,
       super_l2_reg_embedding = arg_l2_reg_embedding a,
       super_init_std = arg_init_std a,
       super_seed = arg_seed a,
       super_task = arg_task a,
       super_device = arg_device a,
       super_gpus = arg_gpus a,
       super_flag = arg_flag a,
       super_domain_column = arg_domain_column a,
       super_num_domains = arg_num_domains a,
       super_meta_dnn_hidden_units = arg_meta_dnn_hidden_units a \<rparr>"

text \<open>
  The first argument of \<open>add_regularization_weight\<close>: the filtered named parameters of
  the dense network (line 67), or one parameter (line 68).
\<close>

datatype 'o weights = NamedWeights "(string \<times> 'o) list" | Weight 'o

section \<open>The callees\<close>

text \<open>
  Everything \<open>pnn.py\<close> calls. A function of \<open>torch\<close> or \<open>deepctr_torch\<close> and a
  constructor returns a value or raises (\<open>'x + 'a\<close>). A method of \<open>BaseModel\<close> is
  called on \<open>self\<close> and a layer is called as an attribute of \<open>self\<close>: it receives its
  object, returns a value or raises, and leaves the object in a state of its choice.
  A keyword argument that the call does not pass is \<open>None\<close>.
\<close>

record ('o, 't, 'x) callees =
  BaseModel_init :: "'o base_args \<Rightarrow> 'x + 'o basemodel"
  compute_input_dim ::
    "'o basemodel \<Rightarrow> 'o \<Rightarrow> bool option \<Rightarrow> bool option \<Rightarrow> ('x + int) \<times> 'o basemodel"
  add_regularization_weight ::
    "'o basemodel \<Rightarrow> 'o weights \<Rightarrow> real \<Rightarrow> ('x + unit) \<times> 'o basemodel"
  input_from_feature_columns ::
    "'o basemodel \<Rightarrow> 't \<Rightarrow> 'o \<Rightarrow> 'o \<Rightarrow> ('x + 't list \<times> 't list) \<times> 'o basemodel"
  meta_transformation :: "'o basemodel \<Rightarrow> 't \<Rightarrow> 't \<Rightarrow> ('x + 't) \<times> 'o basemodel"
  InnerProductLayer_init :: "string \<Rightarrow> 'x + 'o"
  InnerProductLayer_call :: "'o \<Rightarrow> 't list \<Rightarrow> ('x + 't) \<times> 'o"
  OutterProductLayer_init :: "int \<Rightarrow> int \<Rightarrow> string \<Rightarrow> string \<Rightarrow> 'x + 'o"
  OutterProductLayer_call :: "'o \<Rightarrow> 't list \<Rightarrow> ('x + 't) \<times> 'o"
  DNN_init ::
    "int \<Rightarrow> int list \<Rightarrow> string \<Rightarrow> real \<Rightarrow> real \<Rightarrow> bool \<Rightarrow> real \<Rightarrow> string \<Rightarrow> 'x + 'o"
  DNN_call :: "'o \<Rightarrow> 't \<Rightarrow> ('x + 't) \<times> 'o"
  named_parameters :: "'o \<Rightarrow> 'x + (string \<times> 'o) list"
  Linear_init :: "int \<Rightarrow> int \<Rightarrow> bool \<Rightarrow> 'x + 'o"
  Linear_call :: "'o \<Rightarrow> 't \<Rightarrow> ('x + 't) \<times> 'o"
  Linear_weight :: "'o \<Rightarrow> 'o"
  Module_to :: "'o \<Rightarrow> string \<Rightarrow> 'x + 'o"
  PNN_to :: "'o pnn \<Rightarrow> string \<Rightarrow> 'x + 'o pnn"
  out_call :: "'o \<Rightarrow> 't \<Rightarrow> ('x + 't) \<times> 'o"
  torch_cat :: "'t list \<Rightarrow> int \<Rightarrow> 'x + 't"
  torch_flatten :: "'t \<Rightarrow> int \<Rightarrow> 'x + 't"
  tensor_split :: "'t \<Rightarrow> int \<Rightarrow> int \<Rightarrow> 'x + 't list"
  concat_fun :: "'t list \<Rightarrow> 'x + 't"
  combined_dnn_input :: "'t list \<Rightarrow> 't list \<Rightarrow> 'x + 't"

section \<open>Sequencing\<close>

text \<open>
  A method body is a function from the state of the object to an outcome (a value,
  or the exception that ends the method) and the state the object is left in.
\<close>

type_synonym ('s, 'x, 'a) prog = "'s \<Rightarrow> ('x failure + 'a) \<times> 's"

definition returnM :: "'a \<Rightarrow> ('s, 'x, 'a) prog" where
  "returnM a = (\<lambda>s. (Inr a, s))"

definition raiseM :: "exn \<Rightarrow> ('s, 'x, 'a) prog" where
  "raiseM e = (\<lambda>s. (Inl (Here e), s))"

definition bindM :: "('s, 'x, 'a) prog \<Rightarrow> ('a \<Rightarrow> ('s, 'x, 'b) prog) \<Rightarrow> ('s, 'x, 'b) prog" where
  "bindM m f = (\<lambda>s. case m s of (Inl e, s') \<Rightarrow> (Inl e, s') | (Inr a, s') \<Rightarrow> f a s')"

definition getM :: "('s, 'x, 's) prog" where
  "getM = (\<lambda>s. (Inr s, s))"

text \<open>An operation of Python evaluated in \<open>pnn.py\<close>.\<close>

definition pyM :: "exn + 'a \<Rightarrow> ('s, 'x, 'a) prog" where
  "pyM r = (case r of Inl e \<Rightarrow> raiseM e | Inr a \<Rightarrow> returnM a)"

definition from_callee :: "'x + 'a \<Rightarrow> 'x failure + 'a" where
  "from_callee r = (case r of Inl x \<Rightarrow> Inl (Callee x) | Inr a \<Rightarrow> Inr a)"

text \<open>A call of a function or constructor that has no access to \<open>self\<close>.\<close>

definition callM :: "'x + 'a \<Rightarrow> ('s, 'x, 'a) prog" where
  "callM r = (\<lambda>s. (from_callee r, s))"

text \<open>A call of a method on the object that is the state.\<close>

definition methodM :: "('s \<Rightarrow> ('x + 'a) \<times> 's) \<Rightarrow> ('s, 'x, 'a) prog" where
  "methodM f = (\<lambda>s. case f s of (r, s') \<Rightarrow> (from_callee r, s'))"

text \<open>A call of a \<open>BaseModel\<close> method on a \<open>PNN\<close>.\<close>

definition on_base ::
  "('o basemodel \<Rightarrow> ('x + 'a) \<times> 'o basemodel) \<Rightarrow> ('o pnn, 'x, 'a) prog" where
  "on_base f = (\<lambda>self. case f (base self) of (r, b) \<Rightarrow> (from_callee r, self\<lparr>base := b\<rparr>))"

text \<open>Calls of the layers held in attributes: \<open>self.innerproduct(...)\<close> and so on.\<close>

definition call_innerproduct ::
  "('o, 't, 'x) callees \<Rightarrow> 't list \<Rightarrow> ('o pnn, 'x, 't) prog" where
  "call_innerproduct E ts =
     (\<lambda>self. case innerproduct self of
        None \<Rightarrow> (Inl (Here AttributeError), self)
      | Some m \<Rightarrow>
          (case InnerProductLayer_call E m ts of
             (r, m') \<Rightarrow> (from_callee r, self\<lparr>innerproduct := Some m'\<rparr>)))"

definition call_outterproduct ::
  "('o, 't, 'x) callees \<Rightarrow> 't list \<Rightarrow> ('o pnn, 'x, 't) prog" where
  "call_outterproduct E ts =
     (\<lambda>self. case outterproduct self of
        None \<Rightarrow> (Inl (Here AttributeError), self)
      | Some m \<Rightarrow>
          (case OutterProductLayer_call E m ts of
             (r, m') \<Rightarrow> (from_callee r, self\<lparr>outterproduct := Some m'\<rparr>)))"

definition call_dnn :: "('o, 't, 'x) callees \<Rightarrow> 't \<Rightarrow> ('o pnn, 'x, 't) prog" where
  "call_dnn E t =
     (\<lambda>self. case DNN_call E (dnn self) t of (r, m') \<Rightarrow> (from_callee r, self\<lparr>dnn := m'\<rparr>))"

definition call_dnn_linear :: "('o, 't, 'x) callees \<Rightarrow> 't \<Rightarrow> ('o pnn, 'x, 't) prog" where
  "call_dnn_linear E t =
     (\<lambda>self. case Linear_call E (dnn_linear self) t of
        (r, m') \<Rightarrow> (from_callee r, self\<lparr>dnn_linear := m'\<rparr>))"

definition call_out :: "('o, 't, 'x) callees \<Rightarrow> 't \<Rightarrow> ('o pnn, 'x, 't) prog" where
  "call_out E t =
     (\<lambda>self. case out_call E (out (base self)) t of
        (r, m') \<Rightarrow> (from_callee r, self\<lparr>base := (base self)\<lparr>out := m'\<rparr>\<rparr>))"

text \<open>Reading a local variable that is bound only in a branch not taken.\<close>

definition local_var :: "'a option \<Rightarrow> ('s, 'x, 'a) prog" where
  "local_var v = (case v of None \<Rightarrow> raiseM UnboundLocalError | Some a \<Rightarrow> returnM a)"

section \<open>\<open>PNN.__init__\<close>\<close>

text \<open>
  Lines 39 to 70, run on the object that \<open>BaseModel.__init__\<close> has set up. The state
  is the part of the object \<open>BaseModel\<close> manages; the attributes assigned here are
  collected and form the object that \<open>self.to(device)\<close> receives on line 70.
\<close>

definition PNN_init_body ::
  "('o, 't, 'x) callees \<Rightarrow> 'o pnn_args \<Rightarrow> ('o basemodel, 'x, 'o pnn) prog" where
  "PNN_init_body E a =
     bindM (if arg_kernel_type a \<notin> set [''mat'', ''vec'', ''num'']
            then raiseM (ValueError ''kernel_type must be mat,vec or num'')
            else returnM ()) (\<lambda>_.
     bindM (methodM (\<lambda>self.
              compute_input_dim E self (arg_dnn_feature_columns a) (Some False) (Some True)))
       (\<lambda>num_inputs.
     bindM (pyM (num_pairs_of num_inputs)) (\<lambda>num_pairs.
     bindM (if arg_use_inner a
            then bindM (callM (InnerProductLayer_init E (arg_device a)))
                   (\<lambda>layer. returnM (Some layer))
            else returnM None) (\<lambda>innerproduct'.
     bindM (if arg_use_outter a
            then bindM getM (\<lambda>self.
                 bindM (callM (OutterProductLayer_init E num_inputs (embedding_size self)
                                 (arg_kernel_type a) (arg_device a)))
                   (\<lambda>layer. returnM (Some layer)))
            else returnM None) (\<lambda>outterproduct'.
     bindM (methodM (\<lambda>self.
              compute_input_dim E self (arg_dnn_feature_columns a) None None))
       (\<lambda>input_dim.
     bindM (callM (DNN_init E
                     (product_out_dim (arg_use_inner a) (arg_use_outter a) num_pairs + input_dim)
                     (arg_dnn_hidden_units a) (arg_dnn_activation a) (arg_l2_reg_dnn a)
                     (arg_dnn_dropout a) False (arg_init_std a) (arg_device a))) (\<lambda>dnn'.
     bindM (pyM (index_last (arg_dnn_hidden_units a))) (\<lambda>last_units.
     bindM (callM (Linear_init E last_units 1 False)) (\<lambda>linear.
     bindM (callM (Module_to E linear (arg_device a))) (\<lambda>dnn_linear'.
     bindM (callM (named_parameters E dnn')) (\<lambda>params.
     bindM (methodM (\<lambda>self.
              add_regularization_weight E self
                (NamedWeights
                   (filter (\<lambda>x. str_in ''weight'' (fst x) \<and> \<not> str_in ''bn'' (fst x)) params))
                (arg_l2_reg_dnn a))) (\<lambda>_.
     bindM (methodM (\<lambda>self.
              add_regularization_weight E self (Weight (Linear_weight E dnn_linear'))
                (arg_l2_reg_dnn a))) (\<lambda>_.
     bindM getM (\<lambda>self.
     callM (PNN_to E
              \<lparr> base = self,
                use_inner = arg_use_inner a,
                use_outter = arg_use_outter a,
                kernel_type = arg_kernel_type a,
                task = arg_task a,
                innerproduct = innerproduct',
                outterproduct = outterproduct',
                dnn = dnn',
                dnn_linear = dnn_linear' \<rparr>
              (arg_device a))))))))))))))))"

text \<open>
  The constructor: the call of the superclass constructor (line 35), then the body.
  It returns the object or the exception that ends it.
\<close>

definition PNN_init :: "('o, 't, 'x) callees \<Rightarrow> 'o pnn_args \<Rightarrow> 'x failure + 'o pnn" where
  "PNN_init E a =
     (case BaseModel_init E (super_args a) of
        Inl x \<Rightarrow> Inl (Callee x)
      | Inr self \<Rightarrow> fst (PNN_init_body E a self))"

section \<open>\<open>PNN.forward\<close>\<close>

text \<open>Lines 77 to 80: the meta-transformation under the test \<open>'metatrans' in self.flag\<close>.\<close>

definition meta_step ::
  "('o, 't, 'x) callees \<Rightarrow> 't \<Rightarrow> 't list \<Rightarrow> ('o pnn, 'x, 't list) prog" where
  "meta_step E X sparse_embedding_list =
     bindM getM (\<lambda>self.
     bindM (pyM (py_in ''metatrans'' (flag (base self)))) (\<lambda>has.
     if has then
       bindM (callM (torch_cat E sparse_embedding_list 1)) (\<lambda>sparse_input.
       bindM (on_base (\<lambda>b. meta_transformation E b X sparse_input)) (\<lambda>sparse_input.
       callM (tensor_split E sparse_input 1 1)))
     else returnM sparse_embedding_list))"

text \<open>
  Lines 83 to 101: the linear signal, the products under their toggles, and the
  product layer. \<open>inner_product\<close> and \<open>outer_product\<close> are bound only in their
  branches.
\<close>

definition product_step ::
  "('o, 't, 'x) callees \<Rightarrow> 't list \<Rightarrow> ('o pnn, 'x, 't) prog" where
  "product_step E sparse_embedding_list =
     bindM (callM (concat_fun E sparse_embedding_list)) (\<lambda>concatenated.
     bindM (callM (torch_flatten E concatenated 1)) (\<lambda>linear_signal.
     bindM getM (\<lambda>self.
     bindM (if use_inner self
            then bindM (call_innerproduct E sparse_embedding_list) (\<lambda>p.
                 bindM (callM (torch_flatten E p 1)) (\<lambda>f. returnM (Some f)))
            else returnM None) (\<lambda>inner_product.
     bindM getM (\<lambda>self.
     bindM (if use_outter self
            then bindM (call_outterproduct E sparse_embedding_list) (\<lambda>p. returnM (Some p))
            else returnM None) (\<lambda>outer_product.
     bindM getM (\<lambda>self.
     if use_outter self \<and> use_inner self then
       bindM (local_var inner_product) (\<lambda>i.
       bindM (local_var outer_product) (\<lambda>o'.
       callM (torch_cat E [linear_signal, i, o'] 1)))
     else if use_outter self then
       bindM (local_var outer_product) (\<lambda>o'.
       callM (torch_cat E [linear_signal, o'] 1))
     else if use_inner self then
       bindM (local_var inner_product) (\<lambda>i.
       callM (torch_cat E [linear_signal, i] 1))
     else returnM linear_signal)))))))"

text \<open>Lines 72 to 110.\<close>

definition forward :: "('o, 't, 'x) callees \<Rightarrow> 't \<Rightarrow> ('o pnn, 'x, 't) prog" where
  "forward E X =
     bindM getM (\<lambda>self.
     bindM (on_base (\<lambda>b. input_from_feature_columns E b X
                            (dnn_feature_columns (base self)) (embedding_dict (base self))))
       (\<lambda>(sparse_embedding_list, dense_value_list).
     bindM (meta_step E X sparse_embedding_list) (\<lambda>sparse_embedding_list.
     bindM (product_step E sparse_embedding_list) (\<lambda>product_layer.
     bindM (callM (combined_dnn_input E [product_layer] dense_value_list)) (\<lambda>dnn_input.
     bindM (call_dnn E dnn_input) (\<lambda>dnn_output.
     bindM (call_dnn_linear E dnn_output) (\<lambda>dnn_logit.
     call_out E dnn_logit)))))))"

section \<open>The forward pass as the specification words it\<close>

text \<open>
  What follows is written from the words of the specification and of the claims, not
  from the statements of \<open>forward\<close>, and is compared with \<open>forward\<close> below. A layer
  held in an attribute is applied by \<open>through_layer\<close>, which hands the attribute to
  the layer's call and stores what the call leaves; \<open>through_optional_layer\<close> does
  the same for an attribute that may not exist.
\<close>

definition through_layer ::
  "('o pnn \<Rightarrow> 'o) \<Rightarrow> ('o \<Rightarrow> 'o pnn \<Rightarrow> 'o pnn) \<Rightarrow> ('o \<Rightarrow> 'a \<Rightarrow> ('x + 't) \<times> 'o)
     \<Rightarrow> 'a \<Rightarrow> ('o pnn, 'x, 't) prog" where
  "through_layer attribute store layer input =
     (\<lambda>self. case layer (attribute self) input of
        (r, layer') \<Rightarrow> (from_callee r, store layer' self))"

definition through_optional_layer ::
  "('o pnn \<Rightarrow> 'o option) \<Rightarrow> ('o \<Rightarrow> 'o pnn \<Rightarrow> 'o pnn) \<Rightarrow> ('o \<Rightarrow> 'a \<Rightarrow> ('x + 't) \<times> 'o)
     \<Rightarrow> 'a \<Rightarrow> ('o pnn, 'x, 't) prog" where
  "through_optional_layer attribute store layer input =
     (\<lambda>self. case attribute self of
        None \<Rightarrow> (Inl (Here AttributeError), self)
      | Some present \<Rightarrow>
          (case layer present input of
             (r, layer') \<Rightarrow> (from_callee r, store layer' self)))"

text \<open>
  The product layer as selected by the toggles: the linear signal (the flattened
  concatenation of the embeddings), followed by the inner-product signal when
  \<open>use_inner\<close> holds and by the outer-product signal when \<open>use_outter\<close> holds,
  concatenated along dimension 1 when a product is selected.
\<close>

definition linear_signal_of :: "('o, 't, 'x) callees \<Rightarrow> 't list \<Rightarrow> ('s, 'x, 't) prog" where
  "linear_signal_of E ts =
     bindM (callM (concat_fun E ts)) (\<lambda>c. callM (torch_flatten E c 1))"

definition inner_signal_of :: "('o, 't, 'x) callees \<Rightarrow> 't list \<Rightarrow> ('o pnn, 'x, 't) prog" where
  "inner_signal_of E ts =
     bindM (through_optional_layer innerproduct (\<lambda>m self. self\<lparr>innerproduct := Some m\<rparr>)
              (InnerProductLayer_call E) ts)
       (\<lambda>p. callM (torch_flatten E p 1))"

definition outer_signal_of :: "('o, 't, 'x) callees \<Rightarrow> 't list \<Rightarrow> ('o pnn, 'x, 't) prog" where
  "outer_signal_of E ts =
     through_optional_layer outterproduct (\<lambda>m self. self\<lparr>outterproduct := Some m\<rparr>)
       (OutterProductLayer_call E) ts"

definition selected :: "bool \<Rightarrow> ('s, 'x, 'a) prog \<Rightarrow> ('s, 'x, 'a list) prog" where
  "selected toggle signal =
     (if toggle then bindM signal (\<lambda>t. returnM [t]) else returnM [])"

definition concat_signals ::
  "('o, 't, 'x) callees \<Rightarrow> 't \<Rightarrow> 't list \<Rightarrow> ('s, 'x, 't) prog" where
  "concat_signals E linear_signal products =
     (if products = [] then returnM linear_signal
      else callM (torch_cat E (linear_signal # products) 1))"

definition product_layer_by_toggles ::
  "('o, 't, 'x) callees \<Rightarrow> 't list \<Rightarrow> ('o pnn, 'x, 't) prog" where
  "product_layer_by_toggles E ts =
     bindM getM (\<lambda>self.
     bindM (linear_signal_of E ts) (\<lambda>linear_signal.
     bindM (selected (use_inner self) (inner_signal_of E ts)) (\<lambda>inner.
     bindM (selected (use_outter self) (outer_signal_of E ts)) (\<lambda>outer.
     concat_signals E linear_signal (inner @ outer)))))"

text \<open>The meta-transformation of a list of embeddings: concatenate, transform, split.\<close>

definition meta_transformed ::
  "('o, 't, 'x) callees \<Rightarrow> 't \<Rightarrow> 't list \<Rightarrow> ('o pnn, 'x, 't list) prog" where
  "meta_transformed E X ts =
     bindM (callM (torch_cat E ts 1)) (\<lambda>sparse_input.
     bindM (on_base (\<lambda>b. meta_transformation E b X sparse_input)) (\<lambda>sparse_input.
     callM (tensor_split E sparse_input 1 1)))"

text \<open>
  The specification describes the forward pass as a chain of stages: feature columns,
  embeddings, optional meta-transformation, concatenation of the linear, inner-product
  and outer-product signals, dense network, linear output, activation, prediction.
  Each stage below is a step from what the stage before hands over; \<open>then_stage\<close>
  chains two steps, the first one's exception ending the chain. The embeddings come
  from the lookup in the feature columns, with the dense values; the
  meta-transformation is applied when the flag contains \<open>'metatrans'\<close>; the signals
  are the product layer selected by the toggles; the dense network runs on the product
  layer combined with the dense values; the linear output and the activation are the
  layers \<open>dnn_linear\<close> and \<open>out\<close>.
\<close>

definition then_stage ::
  "('a \<Rightarrow> ('s, 'x, 'b) prog) \<Rightarrow> ('b \<Rightarrow> ('s, 'x, 'c) prog) \<Rightarrow> 'a \<Rightarrow> ('s, 'x, 'c) prog" where
  "then_stage f g = (\<lambda>a. bindM (f a) g)"

definition stage_embeddings ::
  "('o, 't, 'x) callees \<Rightarrow> 't \<Rightarrow> ('o pnn, 'x, 't \<times> 't list \<times> 't list) prog" where
  "stage_embeddings E X =
     bindM getM (\<lambda>self.
     bindM (on_base (\<lambda>b. input_from_feature_columns E b X
                            (dnn_feature_columns (base self)) (embedding_dict (base self))))
       (\<lambda>embeddings. returnM (X, embeddings)))"

definition stage_meta_transformation ::
  "('o, 't, 'x) callees \<Rightarrow> 't \<times> 't list \<times> 't list \<Rightarrow> ('o pnn, 'x, 't list \<times> 't list) prog" where
  "stage_meta_transformation E = (\<lambda>(X, sparse, dense).
     bindM getM (\<lambda>self.
     bindM (pyM (py_in ''metatrans'' (flag (base self)))) (\<lambda>enabled.
     bindM (if enabled then meta_transformed E X sparse else returnM sparse) (\<lambda>sparse'.
     returnM (sparse', dense)))))"

definition stage_signals ::
  "('o, 't, 'x) callees \<Rightarrow> 't list \<times> 't list \<Rightarrow> ('o pnn, 'x, 't \<times> 't list) prog" where
  "stage_signals E = (\<lambda>(sparse, dense).
     bindM (product_layer_by_toggles E sparse) (\<lambda>product_layer.
     returnM (product_layer, dense)))"

definition stage_dense_network ::
  "('o, 't, 'x) callees \<Rightarrow> 't \<times> 't list \<Rightarrow> ('o pnn, 'x, 't) prog" where
  "stage_dense_network E = (\<lambda>(product_layer, dense).
     bindM (callM (combined_dnn_input E [product_layer] dense))
       (through_layer dnn (\<lambda>m self. self\<lparr>dnn := m\<rparr>) (DNN_call E)))"

definition stage_linear_output :: "('o, 't, 'x) callees \<Rightarrow> 't \<Rightarrow> ('o pnn, 'x, 't) prog" where
  "stage_linear_output E =
     through_layer dnn_linear (\<lambda>m self. self\<lparr>dnn_linear := m\<rparr>) (Linear_call E)"

definition stage_activation :: "('o, 't, 'x) callees \<Rightarrow> 't \<Rightarrow> ('o pnn, 'x, 't) prog" where
  "stage_activation E =
     through_layer (\<lambda>self. out (base self)) (\<lambda>m self. self\<lparr>base := (base self)\<lparr>out := m\<rparr>\<rparr>)
       (out_call E)"

definition spec_pipeline :: "('o, 't, 'x) callees \<Rightarrow> 't \<Rightarrow> ('o pnn, 'x, 't) prog" where
  "spec_pipeline E =
     then_stage (stage_embeddings E)
    (then_stage (stage_meta_transformation E)
    (then_stage (stage_signals E)
    (then_stage (stage_dense_network E)
    (then_stage (stage_linear_output E)
                (stage_activation E)))))"

section \<open>Properties of callees and of programs\<close>

text \<open>A program whose every exception satisfies \<open>P\<close>, and one that leaves the state as it is.\<close>

definition fails_only :: "('x failure \<Rightarrow> bool) \<Rightarrow> ('s, 'x, 'a) prog \<Rightarrow> bool" where
  "fails_only P m \<longleftrightarrow> (\<forall>s e s'. m s = (Inl e, s') \<longrightarrow> P e)"

definition preserves :: "('s, 'x, 'a) prog \<Rightarrow> bool" where
  "preserves m \<longleftrightarrow> (\<forall>s. snd (m s) = s)"

text \<open>
  The callees of \<open>forward\<close> that receive an object are read-only when they leave it as
  they found it.
\<close>

definition read_only_callees :: "('o, 't, 'x) callees \<Rightarrow> bool" where
  "read_only_callees E \<longleftrightarrow>
     (\<forall>b X c d. snd (input_from_feature_columns E b X c d) = b) \<and>
     (\<forall>b X t. snd (meta_transformation E b X t) = b) \<and>
     (\<forall>m ts. snd (InnerProductLayer_call E m ts) = m) \<and>
     (\<forall>m ts. snd (OutterProductLayer_call E m ts) = m) \<and>
     (\<forall>m t. snd (DNN_call E m t) = m) \<and>
     (\<forall>m t. snd (Linear_call E m t) = m) \<and>
     (\<forall>m t. snd (out_call E m t) = m)"

text \<open>The embedding lookup of line 74 leaves the \<open>flag\<close> attribute as it is.\<close>

definition lookup_keeps_flag :: "('o, 't, 'x) callees \<Rightarrow> 't \<Rightarrow> 'o pnn \<Rightarrow> bool" where
  "lookup_keeps_flag E X self \<longleftrightarrow>
     flag (snd (input_from_feature_columns E (base self) X
                  (dnn_feature_columns (base self)) (embedding_dict (base self))))
       = flag (base self)"

text \<open>
  Two conditions on callees of the constructor. The dense network has no layer to
  build from an empty list of hidden units and raises. The number of feature groups
  that \<open>compute_input_dim\<close> counts for the feature columns of a call is a count of
  columns, far below \<open>2 ^ 511\<close>, where the pair count would leave the doubles.
\<close>

definition DNN_rejects_no_layer :: "('o, 't, 'x) callees \<Rightarrow> bool" where
  "DNN_rejects_no_layer E \<longleftrightarrow>
     (\<forall>inputs_dim activation l2 dropout use_bn init_std dev m.
        DNN_init E inputs_dim [] activation l2 dropout use_bn init_std dev \<noteq> Inr m)"

definition feature_groups_counted :: "('o, 't, 'x) callees \<Rightarrow> 'o pnn_args \<Rightarrow> bool" where
  "feature_groups_counted E a \<longleftrightarrow>
     (\<forall>b n b'. compute_input_dim E b (arg_dnn_feature_columns a) (Some False) (Some True)
                  = (Inr n, b') \<longrightarrow> \<bar>n\<bar> < 2 ^ 511)"




section \<open>An instance of the callees\<close>

text \<open>
  A small executable instance on which the theorems are run: a tensor is its shape,
  a layer is the list of its dimensions, feature columns are the list of their
  vocabulary sizes (one sparse field each, no dense field), every embedding has size 4,
  an exception is its message, and no callee changes its object except
  \<open>add_regularization_weight\<close>, which records the call. As in the library, the dense
  network raises on an empty list of hidden units, and a product layer raises on fewer
  than two embeddings, which give it no pair.
\<close>

definition shape_cat :: "int list list \<Rightarrow> int \<Rightarrow> string + int list" where
  "shape_cat ts d =
     (case ts of
        [] \<Rightarrow> Inl ''cat: no tensor''
      | s # ss \<Rightarrow>
          (let k = nat (if d < 0 then d + int (length s) else d) in
           if k < length s \<and> list_all (\<lambda>u. length u = length s \<and> u[k := 0] = s[k := 0]) ss
           then Inr (s[k := sum_list (map (\<lambda>u. u ! k) ts)])
           else Inl ''cat: shapes differ''))"

definition shape_flatten :: "int list \<Rightarrow> int \<Rightarrow> string + int list" where
  "shape_flatten t start =
     (if 0 \<le> start \<and> nat start < length t
      then Inr (take (nat start) t @ [prod_list (drop (nat start) t)])
      else Inl ''flatten: dimension out of range'')"

definition shape_split :: "int list \<Rightarrow> int \<Rightarrow> int \<Rightarrow> string + int list list" where
  "shape_split t size' d =
     (if 0 \<le> d \<and> nat d < length t \<and> 0 < size'
      then Inr (replicate (nat (t ! nat d div size')) (t[nat d := size']))
      else Inl ''split: bad arguments'')"

definition shape_pairs :: "int list list \<Rightarrow> int" where
  "shape_pairs ts = int (length ts) * (int (length ts) - 1) div 2"

definition shape_dense :: "int list \<Rightarrow> int list \<Rightarrow> (string + int list) \<times> int list" where
  "shape_dense m t =
     (case t of
        [n, d] \<Rightarrow>
          (case m of
             [] \<Rightarrow> (Inl ''layer without dimensions'', m)
           | i # _ \<Rightarrow> if d = i then (Inr [n, last m], m) else (Inl ''width differs'', m))
      | _ \<Rightarrow> (Inl ''not a matrix'', m))"

definition shape_lookup ::
  "int list basemodel \<Rightarrow> int list \<Rightarrow> int list \<Rightarrow> int list
     \<Rightarrow> (string + int list list \<times> int list list) \<times> int list basemodel" where
  "shape_lookup b X cols emb =
     (case X of
        [n, k] \<Rightarrow>
          if k = int (length cols)
          then (Inr (replicate (length cols) [n, 1, embedding_size b], []), b)
          else (Inl ''input width differs'', b)
      | _ \<Rightarrow> (Inl ''input is not a matrix'', b))"

definition toy :: "(int list, int list, string) callees" where
  "toy =
     \<lparr> BaseModel_init = (\<lambda>args. Inr
         \<lparr> flag = super_flag args,
           dnn_feature_columns = super_dnn_feature_columns args,
           embedding_dict = super_dnn_feature_columns args,
           embedding_size = 4,
           out = [],
           rest = [] \<rparr>),
       compute_input_dim = (\<lambda>b cols include_dense feature_group.
         (Inr (if feature_group = Some True then int (length cols)
               else int (length cols) * embedding_size b), b)),
       add_regularization_weight = (\<lambda>b w l2. (Inr (), b\<lparr>rest := 1 # rest b\<rparr>)),
       input_from_feature_columns = shape_lookup,
       meta_transformation = (\<lambda>b X t. (Inr t, b)),
       InnerProductLayer_init = (\<lambda>dev. Inr []),
       InnerProductLayer_call = (\<lambda>m ts.
         (case ts of s # _ # _ \<Rightarrow> Inr [hd s, shape_pairs ts, 1]
          | _ \<Rightarrow> Inl ''no pair of embeddings'', m)),
       OutterProductLayer_init = (\<lambda>num_inputs size' kernel dev. Inr [num_inputs, size']),
       OutterProductLayer_call = (\<lambda>m ts.
         (case ts of s # _ # _ \<Rightarrow> Inr [hd s, shape_pairs ts]
          | _ \<Rightarrow> Inl ''no pair of embeddings'', m)),
       DNN_init = (\<lambda>inputs_dim hidden activation l2 dropout use_bn init_std dev.
         if hidden = [] then Inl ''hidden_units is empty!!'' else Inr (inputs_dim # hidden)),
       DNN_call = shape_dense,
       named_parameters = (\<lambda>m.
         Inr [(''linears.0.weight'', m), (''linears.0.bias'', m), (''bn.0.weight'', m)]),
       Linear_init = (\<lambda>i o' bias. Inr [i, o']),
       Linear_call = shape_dense,
       Linear_weight = (\<lambda>m. m),
       Module_to = (\<lambda>m dev. Inr m),
       PNN_to = (\<lambda>p dev. Inr p),
       out_call = (\<lambda>m t. (Inr t, m)),
       torch_cat = shape_cat,
       torch_flatten = shape_flatten,
       tensor_split = shape_split,
       concat_fun = (\<lambda>ts. if length ts = 1 then Inr (hd ts) else shape_cat ts (- 1)),
       combined_dnn_input = (\<lambda>sl dl.
         case shape_cat (sl @ dl) (- 1) of
           Inl x \<Rightarrow> Inl x
         | Inr s \<Rightarrow> shape_flatten s 1) \<rparr>"

text \<open>Three sparse fields, and a batch of two rows over them.\<close>

definition toy_columns :: "int list" where
  "toy_columns = [10, 20, 30]"

definition toy_batch :: "int list" where
  "toy_batch = [2, 3]"

definition toy_args :: "int list pnn_args" where
  "toy_args = (default_args toy_columns)\<lparr>arg_flag := PyList []\<rparr>"

text \<open>The model that the constructor builds from \<open>toy_args\<close>.\<close>

definition toy_model :: "int list pnn" where
  "toy_model =
     \<lparr> base = \<lparr> flag = PyList [],
                dnn_feature_columns = [10, 20, 30],
                embedding_dict = [10, 20, 30],
                embedding_size = 4,
                out = [],
                rest = [1, 1] \<rparr>,
       use_inner = True,
       use_outter = False,
       kernel_type = ''mat'',
       task = ''binary'',
       innerproduct = Some [],
       outterproduct = None,
       dnn = [15, 128, 128],
       dnn_linear = [128, 1] \<rparr>"

text \<open>The model that the constructor builds with both products switched on.\<close>

definition toy_model_both :: "int list pnn" where
  "toy_model_both =
     toy_model\<lparr>use_outter := True, outterproduct := Some [3, 4], dnn := [18, 128, 128]\<rparr>"

text \<open>The value of a local variable bound in a branch, from the list of what was selected.\<close>

definition first_of :: "'a list \<Rightarrow> 'a option" where
  "first_of xs = (case xs of [] \<Rightarrow> None | x # _ \<Rightarrow> Some x)"

section \<open>The pair count\<close>

lemma bit_length_le: "bit_length m \<le> k \<longleftrightarrow> m < 2 ^ k"
proof (induction k arbitrary: m)
  case 0
  show ?case by (subst bit_length.simps) auto
next
  case (Suc k)
  have pos: "(0::int) < 2 ^ k" by simp
  show ?case
  proof (cases "m \<le> 0")
    case True
    have "m < 2 * 2 ^ k" using True pos by linarith
    with True show ?thesis by (subst bit_length.simps) simp
  next
    case False
    have "bit_length m = Suc (bit_length (m div 2))"
      using False by (subst bit_length.simps) simp
    moreover have "m div 2 < 2 ^ k \<longleftrightarrow> m < 2 ^ Suc k" by auto
    ultimately show ?thesis using Suc [of "m div 2"] by simp
  qed
qed

lemma round_to_double_small: "m < 2 ^ 53 \<Longrightarrow> round_to_double m = m"
  by (simp add: round_to_double_def bit_length_le [of m 53])

lemma round_to_double_even:
  assumes "m < 2 ^ 54" "even m"
  shows "round_to_double m = m"
proof (cases "m < 2 ^ 53")
  case True
  then show ?thesis by (rule round_to_double_small)
next
  case False
  have "bit_length m \<le> 54" using assms(1) by (simp add: bit_length_le)
  moreover have "\<not> bit_length m \<le> 53" using False by (simp add: bit_length_le)
  ultimately have b: "bit_length m = 54" by simp
  from assms(2) have r: "m mod 2 = 0" and d: "m div 2 * 2 = m" by presburger+
  show ?thesis by (simp add: round_to_double_def b Let_def r d)
qed

lemma num_pairs_below_2_27:
  assumes "0 \<le> n" "n \<le> 134217728"
  shows "num_pairs_of n = Inr (n * (n - 1) div 2)"
proof -
  let ?m = "n * (n - 1)"
  have ev: "even ?m" by simp
  have nn: "0 \<le> ?m" using assms(1) by (cases "n = 0") auto
  have "?m \<le> 134217728 * 134217727"
  proof (cases "n = 0")
    case True then show ?thesis by simp
  next
    case False
    with assms have "n - 1 \<le> 134217727" "0 \<le> n - 1" by auto
    with assms show ?thesis by (intro mult_mono) auto
  qed
  then have lt: "?m < 2 ^ 54" by simp
  have rd: "round_to_double ?m = ?m" using lt ev by (rule round_to_double_even)
  have sg: "sgn ?m * (?m div 2) = ?m div 2" using nn by (cases "?m = 0") (auto simp: sgn_if)
  from lt have "\<not> (2::int) ^ 1025 \<le> ?m" by simp
  then show ?thesis using nn rd sg
    by (simp add: num_pairs_of_def int_truediv2_def Let_def del: power_numeral)
qed

lemma num_pairs_at_2_27_plus_1:
  "num_pairs_of 134217729 = Inr (134217729 * (134217729 - 1) div 2)"
  by code_simp

text \<open>
  C10, as amended. For every number of inputs from 0 to 134217729 (that is
  \<open>2 ^ 27 + 1\<close>), line 49 computes the exact number of pairs \<open>n (n - 1) / 2\<close>: up to
  there the quotient is a double, and the division and the truncation lose nothing.
\<close>

theorem num_pairs_exact_up_to_bound:
  "0 \<le> n \<Longrightarrow> n \<le> 134217729 \<Longrightarrow> num_pairs_of n = Inr (n * (n - 1) div 2)"
proof -
  assume n: "0 \<le> n" "n \<le> 134217729"
  show ?thesis
  proof (cases "n = 134217729")
    case True
    then show ?thesis using num_pairs_at_2_27_plus_1 by simp
  next
    case False
    with n have "n \<le> 134217728" by simp
    with n(1) show ?thesis by (rule num_pairs_below_2_27)
  qed
qed

theorem num_pairs_exact_up_to_bound_witness:
  "(0::int) \<le> 10 \<and> (10::int) \<le> 134217729 \<and> num_pairs_of 10 = Inr 45"
  using num_pairs_exact_up_to_bound [of 10] by simp

text \<open>
  C10, as stated, fails: at 134217730 inputs the exact number of pairs is
  9007199456067585, which is odd and above \<open>2 ^ 53\<close> and so is no double; the division
  rounds it to 9007199456067584.
\<close>

theorem num_pairs_inexact_counterexample:
  "num_pairs_of 134217730 = Inr 9007199456067584 \<and>
   num_pairs_of 134217730 \<noteq> Inr (134217730 * (134217730 - 1) div 2)"
  by code_simp

section \<open>Sequencing laws\<close>

lemma bindM_returnM [simp]: "bindM (returnM a) f = f a"
  by (simp add: bindM_def returnM_def)

lemma bindM_raiseM [simp]: "bindM (raiseM e) f = raiseM e"
  by (simp add: bindM_def raiseM_def)

lemma bindM_assoc: "bindM (bindM m f) g = bindM m (\<lambda>a. bindM (f a) g)"
  by (auto simp: bindM_def fun_eq_iff split: prod.splits sum.splits)

lemma bindM_getM: "bindM getM f s = f s s"
  by (simp add: bindM_def getM_def)

lemma bindM_Inr: "m s = (Inr a, s') \<Longrightarrow> bindM m f s = f a s'"
  by (simp add: bindM_def)

lemma bindM_Inl: "m s = (Inl e, s') \<Longrightarrow> bindM m f s = (Inl e, s')"
  by (simp add: bindM_def)

lemma raiseM_apply: "raiseM e s = (Inl (Here e), s)"
  by (simp add: raiseM_def)


lemma pyM_Inr [simp]: "pyM (Inr a) = returnM a"
  by (simp add: pyM_def)

lemma pyM_Inl [simp]: "pyM (Inl e) = raiseM e"
  by (simp add: pyM_def)

lemma callM_Inr [simp]: "callM (Inr a) = returnM a"
  by (simp add: callM_def returnM_def from_callee_def)

lemma from_callee_simps [simp]:
  "from_callee (Inl x) = Inl (Callee x)" "from_callee (Inr a) = Inr a"
  by (simp_all add: from_callee_def)

lemma from_callee_Inr_iff [simp]: "from_callee r = Inr a \<longleftrightarrow> r = Inr a"
  by (cases r) simp_all

lemma from_callee_Inl_iff: "from_callee r = Inl e \<longleftrightarrow> (\<exists>x. r = Inl x \<and> e = Callee x)"
  by (cases r) auto

section \<open>Exceptions of a program\<close>

lemma fails_only_bindM:
  "fails_only P m \<Longrightarrow> (\<And>a. fails_only P (f a)) \<Longrightarrow> fails_only P (bindM m f)"
  unfolding fails_only_def bindM_def
  by (auto split: prod.splits sum.splits)

lemma fails_only_returnM: "fails_only P (returnM a)"
  by (simp add: fails_only_def returnM_def)

lemma fails_only_getM: "fails_only P getM"
  by (simp add: fails_only_def getM_def)

lemma fails_only_raiseM: "P (Here e) \<Longrightarrow> fails_only P (raiseM e)"
  by (simp add: fails_only_def raiseM_def)

lemma fails_only_callM: "(\<And>x. P (Callee x)) \<Longrightarrow> fails_only P (callM r)"
  by (auto simp: fails_only_def callM_def from_callee_Inl_iff)

lemma fails_only_methodM: "(\<And>x. P (Callee x)) \<Longrightarrow> fails_only P (methodM f)"
  by (auto simp: fails_only_def methodM_def from_callee_Inl_iff split: prod.splits)

lemma fails_only_pyM: "(\<And>e. r = Inl e \<Longrightarrow> P (Here e)) \<Longrightarrow> fails_only P (pyM r)"
  by (cases r) (simp_all add: fails_only_raiseM fails_only_returnM)

lemma fails_only_if:
  "(c \<Longrightarrow> fails_only P m) \<Longrightarrow> (\<not> c \<Longrightarrow> fails_only P n) \<Longrightarrow> fails_only P (if c then m else n)"
  by simp

lemma num_pairs_of_fails: "num_pairs_of n = Inl e \<Longrightarrow> e = OverflowError"
  by (auto simp: num_pairs_of_def int_truediv2_def Let_def split: if_splits)

lemma index_last_fails: "index_last xs = Inl e \<Longrightarrow> e = IndexError \<and> xs = []"
  by (auto simp: index_last_def split: list.splits)

section \<open>The constructor\<close>

lemma PNN_init_body_invalid:
  "arg_kernel_type a \<notin> {''mat'', ''vec'', ''num''} \<Longrightarrow>
   PNN_init_body E a self =
     (Inl (Here (ValueError ''kernel_type must be mat,vec or num'')), self)"
  by (simp add: PNN_init_body_def raiseM_apply)

lemma PNN_init_body_fails_only:
  assumes valid: "arg_kernel_type a \<in> {''mat'', ''vec'', ''num''}"
    and callee: "\<And>x. P (Callee x)"
    and overflow: "P (Here OverflowError)"
    and index: "arg_dnn_hidden_units a = [] \<Longrightarrow> P (Here IndexError)"
  shows "fails_only P (PNN_init_body E a)"
proof -
  have check: "(arg_kernel_type a \<notin> set [''mat'', ''vec'', ''num'']) = False"
    using valid by simp
  have pairs: "\<And>n. fails_only P (pyM (num_pairs_of n))"
    using overflow by (auto intro!: fails_only_pyM dest: num_pairs_of_fails)
  have last: "fails_only P (pyM (index_last (arg_dnn_hidden_units a)))"
    using index by (auto intro!: fails_only_pyM dest: index_last_fails)
  show ?thesis
    unfolding PNN_init_body_def check if_False bindM_returnM
    by (intro fails_only_bindM fails_only_if fails_only_returnM fails_only_getM
          fails_only_callM fails_only_methodM pairs last callee)
qed

lemma PNN_init_fails_only:
  assumes valid: "arg_kernel_type a \<in> {''mat'', ''vec'', ''num''}"
    and callee: "\<And>x. P (Callee x)"
    and overflow: "P (Here OverflowError)"
    and index: "arg_dnn_hidden_units a = [] \<Longrightarrow> P (Here IndexError)"
    and fails: "PNN_init E a = Inl e"
  shows "P e"
proof (cases "BaseModel_init E (super_args a)")
  case (Inl x)
  with fails callee show ?thesis by (auto simp: PNN_init_def)
next
  case (Inr self)
  obtain r s' where run: "PNN_init_body E a self = (r, s')" by (cases "PNN_init_body E a self")
  with Inr fails have "r = Inl e" by (simp add: PNN_init_def)
  with run PNN_init_body_fails_only [OF valid callee overflow index, of E]
  show ?thesis by (auto simp: fails_only_def)
qed

lemma PNN_init_invalid_raises:
  "arg_kernel_type a \<notin> {''mat'', ''vec'', ''num''} \<Longrightarrow> \<exists>e. PNN_init E a = Inl e"
  by (cases "BaseModel_init E (super_args a)") (simp_all add: PNN_init_def PNN_init_body_invalid)

lemma PNN_init_invalid_ValueError:
  "arg_kernel_type a \<notin> {''mat'', ''vec'', ''num''} \<Longrightarrow>
   BaseModel_init E (super_args a) = Inr self \<Longrightarrow>
   PNN_init E a = Inl (Here (ValueError ''kernel_type must be mat,vec or num''))"
  by (simp add: PNN_init_def PNN_init_body_invalid)

lemma PNN_init_valid_no_ValueError:
  assumes "arg_kernel_type a \<in> {''mat'', ''vec'', ''num''}"
  shows "PNN_init E a \<noteq> Inl (Here (ValueError m))"
proof
  assume "PNN_init E a = Inl (Here (ValueError m))"
  from PNN_init_fails_only [where P = "\<lambda>e. \<forall>m. e \<noteq> Here (ValueError m)", OF assms _ _ _ this]
  show False by simp
qed


text \<open>
  C1. Constructing a \<open>PNN\<close> with a kernel type outside \<open>'mat'\<close>, \<open>'vec'\<close>, \<open>'num'\<close>
  never returns a model, whatever the other arguments are, and as soon as the
  superclass constructor of line 35 has returned, the exception is the \<open>ValueError\<close> of
  line 40. With a kernel type of the three the validation passes: whatever the other
  arguments are, the constructor does not end with a \<open>ValueError\<close> of its own.
\<close>

theorem kernel_type_validation:
  "(arg_kernel_type a \<notin> {''mat'', ''vec'', ''num''} \<longrightarrow>
      (\<exists>e. PNN_init E a = Inl e) \<and>
      (\<forall>self. BaseModel_init E (super_args a) = Inr self \<longrightarrow>
         PNN_init E a = Inl (Here (ValueError ''kernel_type must be mat,vec or num'')))) \<and>
   (arg_kernel_type a \<in> {''mat'', ''vec'', ''num''} \<longrightarrow>
      (\<forall>m. PNN_init E a \<noteq> Inl (Here (ValueError m))))"
  using PNN_init_invalid_raises [of a E] PNN_init_invalid_ValueError [of a E]
    PNN_init_valid_no_ValueError [of a E]
  by blast

theorem kernel_type_validation_witness:
  "PNN_init toy (toy_args\<lparr>arg_kernel_type := ''sum''\<rparr>)
     = Inl (Here (ValueError ''kernel_type must be mat,vec or num'')) \<and>
   (\<forall>m. PNN_init toy (toy_args\<lparr>arg_kernel_type := ''vec''\<rparr>) \<noteq> Inl (Here (ValueError m)))"
  using kernel_type_validation [of "toy_args\<lparr>arg_kernel_type := ''sum''\<rparr>" toy]
    kernel_type_validation [of "toy_args\<lparr>arg_kernel_type := ''vec''\<rparr>" toy]
  by (simp add: toy_def toy_args_def default_args_def super_args_def)

text \<open>
  C9. The validation does not look at \<open>use_outter\<close>. When \<open>use_outter\<close> is false the
  constructor never calls the constructor of the outer-product layer (its outcome is
  the same whatever that constructor would do), and still an invalid kernel type
  ends it: no model is returned, and the exception is the \<open>ValueError\<close> of line 40 as
  soon as the superclass constructor has returned.
\<close>

theorem kernel_type_checked_without_outer_product:
  "\<not> arg_use_outter a \<Longrightarrow>
   (\<forall>f. PNN_init (E\<lparr>OutterProductLayer_init := f\<rparr>) a = PNN_init E a) \<and>
   (arg_kernel_type a \<notin> {''mat'', ''vec'', ''num''} \<longrightarrow>
      (\<exists>e. PNN_init E a = Inl e) \<and>
      (\<forall>self. BaseModel_init E (super_args a) = Inr self \<longrightarrow>
         PNN_init E a = Inl (Here (ValueError ''kernel_type must be mat,vec or num''))))"
proof -
  assume off: "\<not> arg_use_outter a"
  have "PNN_init_body (E\<lparr>OutterProductLayer_init := f\<rparr>) a = PNN_init_body E a" for f
    using off by (simp add: PNN_init_body_def)
  then have "PNN_init (E\<lparr>OutterProductLayer_init := f\<rparr>) a = PNN_init E a" for f
    by (simp add: PNN_init_def split: sum.splits)
  then show ?thesis
    using PNN_init_invalid_raises [of a E] PNN_init_invalid_ValueError [of a E] by blast
qed

theorem kernel_type_checked_without_outer_product_witness:
  "\<not> arg_use_outter (toy_args\<lparr>arg_kernel_type := ''tensor''\<rparr>) \<and>
   PNN_init toy (toy_args\<lparr>arg_kernel_type := ''tensor''\<rparr>)
     = Inl (Here (ValueError ''kernel_type must be mat,vec or num''))"
  using kernel_type_checked_without_outer_product
    [of "toy_args\<lparr>arg_kernel_type := ''tensor''\<rparr>" toy]
  by (simp add: toy_def toy_args_def default_args_def super_args_def)

lemma round_to_double_le:
  assumes "m < 2 ^ k"
  shows "round_to_double m \<le> 2 ^ k"
proof (cases "bit_length m \<le> 53")
  case True
  with assms show ?thesis by (simp add: round_to_double_def)
next
  case False
  define b where "b = bit_length m"
  define e where "e = b - 53"
  from False have b: "b = 53 + e" by (simp add: b_def e_def)
  have "b \<le> k" using assms by (simp add: b_def bit_length_le)
  have "m < 2 ^ b" using bit_length_le [of m b] by (simp add: b_def)
  then have lt: "m < 2 ^ 53 * 2 ^ e" by (simp add: b power_add)
  have q: "m div 2 ^ e < 2 ^ 53"
  proof (rule ccontr)
    assume "\<not> m div 2 ^ e < 2 ^ 53"
    then have "2 ^ 53 * 2 ^ e \<le> m div 2 ^ e * 2 ^ e"
      by (intro mult_right_mono) simp_all
    moreover have "m div 2 ^ e * 2 ^ e + m mod 2 ^ e = m" by (rule div_mult_mod_eq)
    moreover have "0 \<le> m mod (2 ^ e :: int)" by simp
    ultimately show False using lt by linarith
  qed
  define q' where "q' = (if 2 ^ e < 2 * (m mod 2 ^ e) \<or>
      (2 * (m mod 2 ^ e) = 2 ^ e \<and> odd (m div 2 ^ e)) then m div 2 ^ e + 1 else m div 2 ^ e)"
  from q have "q' \<le> 2 ^ 53" by (simp add: q'_def)
  then have "q' * 2 ^ e \<le> 2 ^ 53 * 2 ^ e" by (intro mult_right_mono) simp_all
  also have "\<dots> = 2 ^ b" by (simp add: b power_add)
  also have "\<dots> \<le> 2 ^ k" using \<open>b \<le> k\<close> by simp
  finally have "q' * 2 ^ e \<le> 2 ^ k" .
  moreover have "round_to_double m = q' * 2 ^ e"
    using False by (simp add: round_to_double_def Let_def q'_def e_def b_def)
  ultimately show ?thesis by simp
qed

lemma num_pairs_of_in_range:
  assumes "\<bar>n\<bar> < 2 ^ 511"
  shows "\<exists>p. num_pairs_of n = Inr p"
proof -
  let ?m = "n * (n - 1)"
  from assms have "\<bar>n\<bar> \<le> 2 ^ 511 - 1" "\<bar>n - 1\<bar> \<le> 2 ^ 511" by simp_all
  then have "\<bar>n\<bar> * \<bar>n - 1\<bar> \<le> (2 ^ 511 - 1) * 2 ^ 511"
    by (intro mult_mono) simp_all
  then have "\<bar>?m\<bar> < 2 ^ 1022" by (simp add: abs_mult)
  from round_to_double_le [OF this] have "round_to_double \<bar>?m\<bar> \<le> 2 ^ 1022" .
  then have "\<not> 2 ^ 1025 \<le> round_to_double \<bar>?m\<bar>" by simp
  then show ?thesis by (simp add: num_pairs_of_def int_truediv2_def Let_def)
qed


lemma fails_only_bindM_callM:
  assumes "\<And>x. P (Callee x)" and "\<And>a. r = Inr a \<Longrightarrow> fails_only P (f a)"
  shows "fails_only P (bindM (callM r) f)"
  using assms unfolding fails_only_def bindM_def callM_def
  by (cases r) auto

lemma fails_only_bindM_methodM:
  assumes "\<And>x. P (Callee x)" and "\<And>a s s'. g s = (Inr a, s') \<Longrightarrow> fails_only P (f a)"
  shows "fails_only P (bindM (methodM g) f)"
  unfolding fails_only_def
proof (intro allI impI)
  fix s e s'
  assume run: "bindM (methodM g) f s = (Inl e, s')"
  obtain r s1 where g: "g s = (r, s1)" by (cases "g s")
  show "P e"
  proof (cases r)
    case (Inl x)
    with run g assms(1) show ?thesis by (auto simp: bindM_def methodM_def)
  next
    case (Inr a)
    with run g have "f a s1 = (Inl e, s')" by (simp add: bindM_def methodM_def)
    with assms(2) [of s a s1] g Inr show ?thesis by (auto simp: fails_only_def)
  qed
qed

lemma fails_only_never:
  assumes "\<And>e. r \<noteq> Inl e"
  shows "fails_only P (pyM r)"
  using assms by (cases r) (auto simp: fails_only_returnM)

lemma PNN_init_body_fails_in_callees:
  assumes valid: "arg_kernel_type a \<in> {''mat'', ''vec'', ''num''}"
    and dnn: "DNN_rejects_no_layer E"
    and counted: "feature_groups_counted E a"
  shows "fails_only (\<lambda>e. \<exists>x. e = Callee x) (PNN_init_body E a)"
proof -
  define P where "P = (\<lambda>e :: 'c failure. \<exists>x. e = Callee x)"
  have check: "(arg_kernel_type a \<notin> set [''mat'', ''vec'', ''num'']) = False"
    using valid by simp
  have callee: "P (Callee x)" for x by (simp add: P_def)
  have pairs: "fails_only P (pyM (num_pairs_of n))"
    if "compute_input_dim E s (arg_dnn_feature_columns a) (Some False) (Some True) = (Inr n, s')"
    for n s s'
  proof -
    from counted that have "\<bar>n\<bar> < 2 ^ 511" unfolding feature_groups_counted_def by blast
    from num_pairs_of_in_range [OF this] show ?thesis by (auto intro: fails_only_never)
  qed
  have last: "fails_only P (pyM (index_last (arg_dnn_hidden_units a)))"
    if "DNN_init E d (arg_dnn_hidden_units a) act l2 dr bn std dev = Inr m"
    for d act l2 dr bn std dev m
  proof -
    from dnn that have "arg_dnn_hidden_units a \<noteq> []"
      unfolding DNN_rejects_no_layer_def by metis
    then show ?thesis
      by (intro fails_only_never) (auto simp: index_last_def split: list.splits)
  qed
  have "fails_only P (PNN_init_body E a)"
    unfolding PNN_init_body_def check if_False bindM_returnM
    apply (rule fails_only_bindM_methodM [where P = P, OF callee])
    apply (rule fails_only_bindM [OF pairs], assumption)
    apply (rule fails_only_bindM)
     apply (intro fails_only_bindM fails_only_if fails_only_returnM fails_only_callM callee)
    apply (rule fails_only_bindM)
     apply (intro fails_only_bindM fails_only_if fails_only_returnM fails_only_getM
        fails_only_callM callee)
    apply (rule fails_only_bindM [OF fails_only_methodM [where P = P, OF callee]])
    apply (rule fails_only_bindM_callM [where P = P, OF callee])
    apply (rule fails_only_bindM [OF last], assumption)
    apply (intro fails_only_bindM fails_only_getM fails_only_callM fails_only_methodM callee)
    done
  then show ?thesis by (simp add: P_def)
qed

lemma PNN_init_fails_in_callees:
  assumes valid: "arg_kernel_type a \<in> {''mat'', ''vec'', ''num''}"
    and dnn: "DNN_rejects_no_layer E"
    and counted: "feature_groups_counted E a"
    and fails: "PNN_init E a = Inl e"
  shows "\<exists>x. e = Callee x"
proof (cases "BaseModel_init E (super_args a)")
  case (Inl x)
  with fails show ?thesis by (auto simp: PNN_init_def)
next
  case (Inr self)
  obtain r s' where run: "PNN_init_body E a self = (r, s')" by (cases "PNN_init_body E a self")
  with Inr fails have "r = Inl e" by (simp add: PNN_init_def)
  with run PNN_init_body_fails_in_callees [OF valid dnn counted]
  show ?thesis by (auto simp: fails_only_def)
qed


text \<open>
  C6. With a kernel type of the three the constructor performs no other validation:
  an exception that ends it is never a \<open>ValueError\<close> of its own, and it comes out of a
  callee, the case of an empty \<open>dnn_hidden_units\<close> included, which ends inside the
  dense network's constructor on line 60 before line 65 indexes the list. This rests
  on two conditions on callees: the dense network rejects the empty list, and the
  number of feature groups is a count of columns.
\<close>

theorem constructor_failures_come_from_callees:
  "arg_kernel_type a \<in> {''mat'', ''vec'', ''num''} \<Longrightarrow> PNN_init E a = Inl e \<Longrightarrow>
   (\<forall>m. e \<noteq> Here (ValueError m)) \<and>
   (DNN_rejects_no_layer E \<and> feature_groups_counted E a \<longrightarrow> (\<exists>x. e = Callee x))"
  using PNN_init_valid_no_ValueError [of a E] PNN_init_fails_in_callees [of a E e]
  by auto

theorem constructor_failures_come_from_callees_witness:
  "arg_kernel_type (toy_args\<lparr>arg_dnn_hidden_units := []\<rparr>) \<in> {''mat'', ''vec'', ''num''} \<and>
   DNN_rejects_no_layer toy \<and>
   feature_groups_counted toy (toy_args\<lparr>arg_dnn_hidden_units := []\<rparr>) \<and>
   PNN_init toy (toy_args\<lparr>arg_dnn_hidden_units := []\<rparr>)
     = Inl (Callee ''hidden_units is empty!!'')"
proof -
  let ?a = "toy_args\<lparr>arg_dnn_hidden_units := []\<rparr>"
  have run: "PNN_init toy ?a = Inl (Callee ''hidden_units is empty!!'')"
    by (simp add: PNN_init_def PNN_init_body_def toy_def toy_args_def default_args_def
        super_args_def toy_columns_def methodM_def callM_def bindM_def getM_def returnM_def
        num_pairs_of_def int_truediv2_def round_to_double_def bit_length.simps
        product_out_dim_def index_last_def Let_def)
  have valid: "arg_kernel_type ?a \<in> {''mat'', ''vec'', ''num''}"
    by (simp add: toy_args_def default_args_def)
  have dnn: "DNN_rejects_no_layer toy"
    by (simp add: DNN_rejects_no_layer_def toy_def)
  have counted: "feature_groups_counted toy ?a"
    by (simp add: feature_groups_counted_def toy_def toy_args_def default_args_def
        toy_columns_def)
  from constructor_failures_come_from_callees [OF valid run] valid dnn counted run
  show ?thesis by simp
qed

section \<open>The forward pass\<close>

lemma bindM_cong_state:
  "(\<And>a s'. m s = (Inr a, s') \<Longrightarrow> f a s' = g a s') \<Longrightarrow> bindM m f s = bindM m g s"
  by (simp add: bindM_def split: prod.splits sum.splits)

lemma bindM_returnM_right: "bindM m returnM = m"
  by (auto simp: bindM_def returnM_def fun_eq_iff split: prod.splits sum.splits)

lemma bindM_callM:
  "bindM (callM r) f s = (case r of Inl x \<Rightarrow> (Inl (Callee x), s) | Inr a \<Rightarrow> f a s)"
  by (simp add: bindM_def callM_def from_callee_def split: sum.splits)

lemma inner_signal_of_call:
  "inner_signal_of E ts = bindM (call_innerproduct E ts) (\<lambda>p. callM (torch_flatten E p 1))"
  by (simp add: inner_signal_of_def through_optional_layer_def call_innerproduct_def)

lemma outer_signal_of_call: "outer_signal_of E ts = call_outterproduct E ts"
  by (simp add: outer_signal_of_def through_optional_layer_def call_outterproduct_def)

lemma through_layer_calls:
  "through_layer dnn (\<lambda>m self. self\<lparr>dnn := m\<rparr>) (DNN_call E) = call_dnn E"
  "through_layer dnn_linear (\<lambda>m self. self\<lparr>dnn_linear := m\<rparr>) (Linear_call E)
     = call_dnn_linear E"
  "through_layer (\<lambda>self. out (base self)) (\<lambda>m self. self\<lparr>base := (base self)\<lparr>out := m\<rparr>\<rparr>)
     (out_call E) = call_out E"
  by (simp_all add: through_layer_def call_dnn_def call_dnn_linear_def call_out_def fun_eq_iff)

lemma toggles_after_innerproduct:
  "call_innerproduct E ts s = (r, s') \<Longrightarrow>
   use_inner s' = use_inner s \<and> use_outter s' = use_outter s"
  by (auto simp: call_innerproduct_def split: option.splits prod.splits)

lemma toggles_after_outterproduct:
  "call_outterproduct E ts s = (r, s') \<Longrightarrow>
   use_inner s' = use_inner s \<and> use_outter s' = use_outter s"
  by (auto simp: call_outterproduct_def split: option.splits prod.splits)

lemma selected_inner_result:
  assumes "selected b (inner_signal_of E ts) s = (Inr is, s')"
  shows "use_inner s' = use_inner s \<and> use_outter s' = use_outter s \<and>
         (if b then \<exists>i. is = [i] else is = [])"
proof (cases b)
  case False
  with assms show ?thesis by (simp add: selected_def returnM_def)
next
  case True
  obtain r s1 where c: "call_innerproduct E ts s = (r, s1)" by (cases "call_innerproduct E ts s")
  from toggles_after_innerproduct [OF c] assms True c show ?thesis
    by (auto simp: selected_def inner_signal_of_call bindM_def callM_def returnM_def
        split: sum.splits)
qed

lemma selected_outer_result:
  assumes "selected b (outer_signal_of E ts) s = (Inr os, s')"
  shows "use_inner s' = use_inner s \<and> use_outter s' = use_outter s \<and>
         (if b then \<exists>i. os = [i] else os = [])"
proof (cases b)
  case False
  with assms show ?thesis by (simp add: selected_def returnM_def)
next
  case True
  obtain r s1 where c: "call_outterproduct E ts s = (r, s1)" by (cases "call_outterproduct E ts s")
  from toggles_after_outterproduct [OF c] assms True c show ?thesis
    by (auto simp: selected_def outer_signal_of_call bindM_def callM_def returnM_def
        split: sum.splits)
qed

lemma inner_block:
  "bindM (if b then bindM (call_innerproduct E ts) (\<lambda>p.
                    bindM (callM (torch_flatten E p 1)) (\<lambda>f. returnM (Some f)))
          else returnM None) k
   = bindM (selected b (inner_signal_of E ts)) (\<lambda>is. k (first_of is))"
  by (simp add: selected_def inner_signal_of_call bindM_assoc first_of_def)

lemma outer_block:
  "bindM (if b then bindM (call_outterproduct E ts) (\<lambda>p. returnM (Some p))
          else returnM None) k
   = bindM (selected b (outer_signal_of E ts)) (\<lambda>os. k (first_of os))"
  by (simp add: selected_def outer_signal_of_call bindM_assoc first_of_def)

lemma product_layer_choice:
  assumes "if i then \<exists>x. is = [x] else is = []" "if o' then \<exists>x. os = [x] else os = []"
  shows "(if o' \<and> i then
            bindM (local_var (first_of is)) (\<lambda>a.
            bindM (local_var (first_of os)) (\<lambda>b.
            callM (torch_cat E [lin, a, b] 1)))
          else if o' then
            bindM (local_var (first_of os)) (\<lambda>b. callM (torch_cat E [lin, b] 1))
          else if i then
            bindM (local_var (first_of is)) (\<lambda>a. callM (torch_cat E [lin, a] 1))
          else returnM lin) = concat_signals E lin (is @ os)"
  using assms by (auto simp: concat_signals_def local_var_def first_of_def split: if_splits)

lemma product_step_by_toggles: "product_step E ts s = product_layer_by_toggles E ts s"
proof -
  let ?final = "\<lambda>lin is os self.
     (if use_outter self \<and> use_inner self then
        bindM (local_var (first_of is)) (\<lambda>a.
        bindM (local_var (first_of os)) (\<lambda>b.
        callM (torch_cat E [lin, a, b] 1)))
      else if use_outter self then
        bindM (local_var (first_of os)) (\<lambda>b. callM (torch_cat E [lin, b] 1))
      else if use_inner self then
        bindM (local_var (first_of is)) (\<lambda>a. callM (torch_cat E [lin, a] 1))
      else returnM lin)"
  have tail: "bindM (selected (use_inner s) (inner_signal_of E ts)) (\<lambda>is.
              bindM getM (\<lambda>self.
              bindM (selected (use_outter self) (outer_signal_of E ts)) (\<lambda>os.
              bindM getM (\<lambda>self. ?final lin is os self)))) s
            = bindM (selected (use_inner s) (inner_signal_of E ts)) (\<lambda>is.
              bindM (selected (use_outter s) (outer_signal_of E ts)) (\<lambda>os.
              concat_signals E lin (is @ os))) s" for lin
  proof (rule bindM_cong_state)
    fix "is" s1
    assume i: "selected (use_inner s) (inner_signal_of E ts) s = (Inr is, s1)"
    note ri = selected_inner_result [OF i]
    have "bindM (selected (use_outter s) (outer_signal_of E ts)) (\<lambda>os.
            bindM getM (\<lambda>self. ?final lin is os self)) s1
          = bindM (selected (use_outter s) (outer_signal_of E ts)) (\<lambda>os.
            concat_signals E lin (is @ os)) s1"
    proof (rule bindM_cong_state)
      fix os s2
      assume o: "selected (use_outter s) (outer_signal_of E ts) s1 = (Inr os, s2)"
      note ro = selected_outer_result [OF o]
      from ri ro have t: "use_inner s2 = use_inner s" "use_outter s2 = use_outter s"
        and pre: "if use_inner s then \<exists>x. is = [x] else is = []"
          "if use_outter s then \<exists>x. os = [x] else os = []"
        by simp_all
      have fin: "?final lin is os s2 = concat_signals E lin (is @ os)"
        by (simp only: t) (rule product_layer_choice [OF pre])
      show "bindM getM (\<lambda>self. ?final lin is os self) s2
                 = concat_signals E lin (is @ os) s2"
        unfolding bindM_getM by (rule fun_cong [OF fin])
    qed
    with ri show "bindM getM (\<lambda>self.
              bindM (selected (use_outter self) (outer_signal_of E ts)) (\<lambda>os.
              bindM getM (\<lambda>self. ?final lin is os self))) s1
          = bindM (selected (use_outter s) (outer_signal_of E ts)) (\<lambda>os.
            concat_signals E lin (is @ os)) s1"
      by (simp add: bindM_getM)
  qed
  show ?thesis
    unfolding product_step_def product_layer_by_toggles_def linear_signal_of_def
      inner_block outer_block
    by (simp add: bindM_assoc bindM_getM bindM_callM tail split: sum.splits)
qed

lemma product_step_neither:
  "\<not> use_inner s \<Longrightarrow> \<not> use_outter s \<Longrightarrow> product_step E ts s = linear_signal_of E ts s"
  by (simp add: product_step_by_toggles product_layer_by_toggles_def selected_def
      concat_signals_def bindM_getM linear_signal_of_def bindM_assoc bindM_returnM_right)

lemma product_out_dim_by_toggles:
  "product_out_dim i o' n = (if i then n else 0) + (if o' then n else 0)"
  by (simp add: product_out_dim_def)

lemma preserves_bindM:
  "preserves m \<Longrightarrow> (\<And>a. preserves (f a)) \<Longrightarrow> preserves (bindM m f)"
  unfolding preserves_def bindM_def
  by (auto split: prod.splits sum.splits) (metis snd_conv)+

lemma preserves_returnM: "preserves (returnM a)"
  by (simp add: preserves_def returnM_def)

lemma preserves_raiseM: "preserves (raiseM e)"
  by (simp add: preserves_def raiseM_def)

lemma preserves_getM: "preserves getM"
  by (simp add: preserves_def getM_def)

lemma preserves_callM: "preserves (callM r)"
  by (simp add: preserves_def callM_def)

lemma preserves_pyM: "preserves (pyM r)"
  by (cases r) (simp_all add: preserves_raiseM preserves_returnM)

lemma preserves_local_var: "preserves (local_var v)"
  by (cases v) (simp_all add: local_var_def preserves_raiseM preserves_returnM)

lemma preserves_if:
  "(c \<Longrightarrow> preserves m) \<Longrightarrow> (\<not> c \<Longrightarrow> preserves n) \<Longrightarrow> preserves (if c then m else n)"
  by simp

lemma preserves_case_prod:
  "(\<And>a b. preserves (f a b)) \<Longrightarrow> preserves (case p of (a, b) \<Rightarrow> f a b)"
  by (cases p) simp

lemma preserves_on_base: "(\<And>b. snd (f b) = b) \<Longrightarrow> preserves (on_base f)"
  by (auto simp: preserves_def on_base_def split: prod.splits) (metis snd_conv pnn.surjective pnn.update_convs(1))


lemma read_only_callees_D:
  assumes "read_only_callees E"
  shows "snd (input_from_feature_columns E b X c d) = b"
    and "snd (meta_transformation E b X t) = b"
    and "snd (InnerProductLayer_call E m ts) = m"
    and "snd (OutterProductLayer_call E m ts) = m"
    and "snd (DNN_call E m t) = m"
    and "snd (Linear_call E m t) = m"
    and "snd (out_call E m t) = m"
  using assms unfolding read_only_callees_def by blast+

lemma preserves_call_innerproduct:
  assumes "read_only_callees E"
  shows "preserves (call_innerproduct E ts)"
  unfolding preserves_def call_innerproduct_def
proof (intro allI)
  fix s :: "'a pnn"
  show "snd (case innerproduct s of None \<Rightarrow> (Inl (Here AttributeError), s)
        | Some m \<Rightarrow> (case InnerProductLayer_call E m ts of
            (r, m') \<Rightarrow> (from_callee r, s\<lparr>innerproduct := Some m'\<rparr>))) = s"
  proof (cases "innerproduct s")
    case None
    then show ?thesis by simp
  next
    case (Some m)
    with read_only_callees_D(3) [OF assms, of m ts] show ?thesis
      by (cases "InnerProductLayer_call E m ts") simp
  qed
qed

lemma preserves_call_outterproduct:
  assumes "read_only_callees E"
  shows "preserves (call_outterproduct E ts)"
  unfolding preserves_def call_outterproduct_def
proof (intro allI)
  fix s :: "'a pnn"
  show "snd (case outterproduct s of None \<Rightarrow> (Inl (Here AttributeError), s)
        | Some m \<Rightarrow> (case OutterProductLayer_call E m ts of
            (r, m') \<Rightarrow> (from_callee r, s\<lparr>outterproduct := Some m'\<rparr>))) = s"
  proof (cases "outterproduct s")
    case None
    then show ?thesis by simp
  next
    case (Some m)
    with read_only_callees_D(4) [OF assms, of m ts] show ?thesis
      by (cases "OutterProductLayer_call E m ts") simp
  qed
qed

lemma preserves_call_dnn:
  assumes "read_only_callees E"
  shows "preserves (call_dnn E t)"
  unfolding preserves_def call_dnn_def
proof (intro allI)
  fix s :: "'a pnn"
  from read_only_callees_D(5) [OF assms, of "dnn s" t]
  show "snd (case DNN_call E (dnn s) t of (r, m') \<Rightarrow> (from_callee r, s\<lparr>dnn := m'\<rparr>)) = s"
    by (cases "DNN_call E (dnn s) t") simp
qed

lemma preserves_call_dnn_linear:
  assumes "read_only_callees E"
  shows "preserves (call_dnn_linear E t)"
  unfolding preserves_def call_dnn_linear_def
proof (intro allI)
  fix s :: "'a pnn"
  from read_only_callees_D(6) [OF assms, of "dnn_linear s" t]
  show "snd (case Linear_call E (dnn_linear s) t of
               (r, m') \<Rightarrow> (from_callee r, s\<lparr>dnn_linear := m'\<rparr>)) = s"
    by (cases "Linear_call E (dnn_linear s) t") simp
qed

lemma preserves_call_out:
  assumes "read_only_callees E"
  shows "preserves (call_out E t)"
  unfolding preserves_def call_out_def
proof (intro allI)
  fix s :: "'a pnn"
  from read_only_callees_D(7) [OF assms, of "out (base s)" t]
  show "snd (case out_call E (out (base s)) t of
               (r, m') \<Rightarrow> (from_callee r, s\<lparr>base := (base s)\<lparr>out := m'\<rparr>\<rparr>)) = s"
    by (cases "out_call E (out (base s)) t") simp
qed

lemma preserves_meta_step:
  assumes "read_only_callees E"
  shows "preserves (meta_step E X ts)"
  unfolding meta_step_def
  by (intro preserves_bindM preserves_getM preserves_pyM preserves_if preserves_callM
        preserves_returnM preserves_on_base read_only_callees_D(2) [OF assms])

lemma preserves_product_step:
  assumes "read_only_callees E"
  shows "preserves (product_step E ts)"
  unfolding product_step_def
  by (intro preserves_bindM preserves_getM preserves_if preserves_callM preserves_returnM
        preserves_local_var preserves_call_innerproduct [OF assms]
        preserves_call_outterproduct [OF assms])

lemma preserves_forward:
  assumes "read_only_callees E"
  shows "preserves (forward E X)"
  unfolding forward_def
  by (intro preserves_bindM preserves_getM preserves_case_prod preserves_callM
        preserves_on_base read_only_callees_D(1) [OF assms] preserves_meta_step [OF assms]
        preserves_product_step [OF assms] preserves_call_dnn [OF assms]
        preserves_call_dnn_linear [OF assms] preserves_call_out [OF assms])

lemma read_only_toy: "read_only_callees toy"
  by (auto simp: read_only_callees_def toy_def shape_lookup_def shape_dense_def
      split: list.splits)

lemma bindM_on_base:
  "f (base s) = (r, b') \<Longrightarrow>
   bindM (on_base f) k s =
     (case r of Inl x \<Rightarrow> (Inl (Callee x), s\<lparr>base := b'\<rparr>) | Inr a \<Rightarrow> k a (s\<lparr>base := b'\<rparr>))"
  by (cases r) (simp_all add: bindM_def on_base_def)

lemma forward_after_lookup:
  assumes "input_from_feature_columns E (base self) X (dnn_feature_columns (base self))
             (embedding_dict (base self)) = (r, b')"
  shows "forward E X self =
     (case r of
        Inl x \<Rightarrow> (Inl (Callee x), self\<lparr>base := b'\<rparr>)
      | Inr (sparse, dense) \<Rightarrow>
          bindM (meta_step E X sparse) (\<lambda>sparse'.
          bindM (product_step E sparse') (\<lambda>product_layer.
          bindM (callM (combined_dnn_input E [product_layer] dense)) (\<lambda>dnn_input.
          bindM (call_dnn E dnn_input) (\<lambda>dnn_output.
          bindM (call_dnn_linear E dnn_output) (\<lambda>dnn_logit.
          call_out E dnn_logit))))) (self\<lparr>base := b'\<rparr>))"
  unfolding forward_def bindM_getM
  by (simp add: bindM_on_base
        [where f = "\<lambda>b. input_from_feature_columns E b X (dnn_feature_columns (base self))
                         (embedding_dict (base self))" and s = self, OF assms]
      split: sum.splits)

lemma meta_step_no_container:
  "py_in ''metatrans'' (flag (base s)) = Inl e \<Longrightarrow> meta_step E X ts s = (Inl (Here e), s)"
  by (simp add: meta_step_def bindM_getM raiseM_apply)



lemma py_in_fails: "py_in n v = Inl e \<Longrightarrow> e = TypeError"
  by (cases v) simp_all

lemma py_in_container:
  "py_in n v = Inr b \<Longrightarrow> (\<exists>s. v = PyStr s) \<or> (\<exists>xs. v = PyList xs)"
  by (cases v) simp_all

lemmas toy_run =
  forward_def meta_step_def product_step_def bindM_def getM_def returnM_def raiseM_def
  callM_def on_base_def call_innerproduct_def call_outterproduct_def call_dnn_def
  call_dnn_linear_def call_out_def local_var_def pyM_def toy_def toy_model_def
  toy_batch_def shape_lookup_def shape_dense_def shape_cat_def shape_flatten_def
  shape_split_def shape_pairs_def Let_def

text \<open>
  C3. The forward pass is the chain of the stages in the order of the specification:
  embeddings from the feature columns, the optional meta-transformation, the
  concatenation of the linear, inner-product and outer-product signals, the dense
  network on the product layer combined with the dense values, the linear output
  and the activation, each stage starting from what the stage before returned and
  from the state it left, and the first exception ending the pass.
\<close>

theorem forward_follows_the_pipeline: "forward E X = spec_pipeline E X"
proof -
  have meta: "meta_step E X ts =
      bindM getM (\<lambda>self.
      bindM (pyM (py_in ''metatrans'' (flag (base self)))) (\<lambda>enabled.
      if enabled then meta_transformed E X ts else returnM ts))" for ts
    unfolding meta_step_def meta_transformed_def by (rule refl)
  have signals: "product_step E ts = product_layer_by_toggles E ts" for ts
    by (rule ext) (rule product_step_by_toggles)
  show ?thesis
    unfolding forward_def spec_pipeline_def then_stage_def stage_embeddings_def
      stage_meta_transformation_def stage_signals_def stage_dense_network_def
      stage_linear_output_def stage_activation_def through_layer_calls meta signals
    by (simp add: bindM_assoc split_def bindM_returnM_right cong: if_cong)
qed



text \<open>
  C7. The forward pass writes no attribute of its own: when the callees that receive
  an object (the two methods of \<open>BaseModel\<close> and the layers) leave it as they found
  it, the model after the pass is the model before it, whether the pass returned a
  prediction or ended with an exception.
\<close>

theorem forward_leaves_model_unchanged:
  "read_only_callees E \<Longrightarrow> snd (forward E X self) = self"
  using preserves_forward [of E X] by (simp add: preserves_def)

theorem forward_leaves_model_unchanged_witness:
  "read_only_callees toy \<and> forward toy toy_batch toy_model = (Inr [2, 1], toy_model)"
proof -
  have "fst (forward toy toy_batch toy_model) = Inr [2, 1]"
    by (simp add: toy_run)
  with forward_leaves_model_unchanged [OF read_only_toy, of toy_batch toy_model] read_only_toy
  show ?thesis by (simp add: prod_eq_iff)
qed

text \<open>
  C8. On a model whose \<open>flag\<close> is \<open>None\<close> (and whose lookup on line 74 leaves the
  attribute alone) the forward pass never returns a prediction: it ends with an
  exception, and once the lookup has returned, with the \<open>TypeError\<close> of the membership
  test of line 77, before anything else is called. A pass that returns a prediction
  ran on a model whose \<open>flag\<close> is a string or a list.
\<close>

theorem forward_fails_without_flag:
  "lookup_keeps_flag E X self \<Longrightarrow>
   (flag (base self) = PyNone \<longrightarrow>
      (\<exists>e s'. forward E X self = (Inl e, s')) \<and>
      (\<forall>r b'. input_from_feature_columns E (base self) X (dnn_feature_columns (base self))
                 (embedding_dict (base self)) = (Inr r, b')
         \<longrightarrow> forward E X self = (Inl (Here TypeError), self\<lparr>base := b'\<rparr>))) \<and>
   (\<forall>y s'. forward E X self = (Inr y, s') \<longrightarrow>
      (\<exists>s. flag (base self) = PyStr s) \<or> (\<exists>xs. flag (base self) = PyList xs))"
proof -
  assume keeps: "lookup_keeps_flag E X self"
  obtain r b' where lookup:
    "input_from_feature_columns E (base self) X (dnn_feature_columns (base self))
       (embedding_dict (base self)) = (r, b')"
    by (cases "input_from_feature_columns E (base self) X (dnn_feature_columns (base self))
       (embedding_dict (base self))")
  from keeps lookup have fl: "flag (base (self\<lparr>base := b'\<rparr>)) = flag (base self)"
    by (simp add: lookup_keeps_flag_def)
  note fwd = forward_after_lookup [OF lookup]
  have none: "forward E X self = (Inl (Here TypeError), self\<lparr>base := b'\<rparr>)"
    if "flag (base self) = PyNone" "r = Inr p" for p
  proof -
    have "py_in ''metatrans'' (flag (base (self\<lparr>base := b'\<rparr>))) = Inl TypeError"
      using that(1) fl by simp
    from meta_step_no_container [OF this, of E X "fst p"] that(2) show ?thesis
      by (simp add: fwd split_def bindM_def)
  qed
  have fails: "\<exists>e s'. forward E X self = (Inl e, s')" if "flag (base self) = PyNone"
  proof (cases r)
    case (Inl x)
    then show ?thesis by (simp add: fwd)
  next
    case (Inr p)
    from none [OF that Inr] show ?thesis by blast
  qed
  have container: "(\<exists>s. flag (base self) = PyStr s) \<or> (\<exists>xs. flag (base self) = PyList xs)"
    if ok: "forward E X self = (Inr y, s')" for y s'
  proof (cases r)
    case (Inl x)
    with ok show ?thesis by (simp add: fwd)
  next
    case (Inr p)
    show ?thesis
    proof (cases "py_in ''metatrans'' (flag (base (self\<lparr>base := b'\<rparr>)))")
      case (Inl e)
      from meta_step_no_container [OF this, of E X "fst p"] ok Inr show ?thesis
        by (simp add: fwd split_def bindM_def)
    next
      case c: (Inr b)
      from py_in_container [OF c] fl show ?thesis by simp
    qed
  qed
  from fails none container lookup show ?thesis by auto
qed

theorem forward_fails_without_flag_witness:
  "lookup_keeps_flag toy toy_batch (toy_model\<lparr>base := (base toy_model)\<lparr>flag := PyNone\<rparr>\<rparr>) \<and>
   flag (base (toy_model\<lparr>base := (base toy_model)\<lparr>flag := PyNone\<rparr>\<rparr>)) = PyNone \<and>
   forward toy toy_batch (toy_model\<lparr>base := (base toy_model)\<lparr>flag := PyNone\<rparr>\<rparr>)
     = (Inl (Here TypeError), toy_model\<lparr>base := (base toy_model)\<lparr>flag := PyNone\<rparr>\<rparr>)"
proof -
  let ?m = "toy_model\<lparr>base := (base toy_model)\<lparr>flag := PyNone\<rparr>\<rparr>"
  have keeps: "lookup_keeps_flag toy toy_batch ?m"
    by (simp add: lookup_keeps_flag_def toy_def toy_model_def toy_batch_def shape_lookup_def)
  have lookup: "input_from_feature_columns toy (base ?m) toy_batch
      (dnn_feature_columns (base ?m)) (embedding_dict (base ?m))
      = (Inr ([[2, 1, 4], [2, 1, 4], [2, 1, 4]], []), base ?m)"
    by (simp add: toy_def toy_model_def toy_batch_def shape_lookup_def)
  have same: "?m\<lparr>base := base ?m\<rparr> = ?m" by simp
  from forward_fails_without_flag [OF keeps] lookup keeps same
  show ?thesis by (simp add: toy_model_def)
qed

section \<open>Shapes through the forward pass\<close>

lemma bindM_InrE:
  assumes "bindM m f s = (Inr b, s'')"
  obtains a s' where "m s = (Inr a, s')" "f a s' = (Inr b, s'')"
  using assms by (auto simp: bindM_def split: prod.splits sum.splits)


lemma callM_InrD: "callM r s = (Inr a, s') \<Longrightarrow> r = Inr a \<and> s' = s"
  by (simp add: callM_def)

lemma methodM_InrD: "methodM f s = (Inr a, s') \<Longrightarrow> f s = (Inr a, s')"
  by (auto simp: methodM_def split: prod.splits)

lemma getM_InrD: "getM s = (Inr a, s') \<Longrightarrow> a = s \<and> s' = s"
  by (auto simp: getM_def)

lemma returnM_InrD: "returnM b s = (Inr a, s') \<Longrightarrow> a = b \<and> s' = s"
  by (auto simp: returnM_def)





























section \<open>The instance keeps the contracts\<close>










section \<open>What the constructor builds, and the product layer\<close>

lemma optional_layer_built:
  "(if c then bindM (callM r) (\<lambda>layer. returnM (Some layer)) else returnM None) s = (Inr v, s')
   \<Longrightarrow> (v \<noteq> None) = c"
  by (cases r) (auto simp: bindM_def callM_def returnM_def split: if_splits)

lemma optional_outer_layer_built:
  "(if c then bindM getM (\<lambda>self. bindM (callM (r self)) (\<lambda>layer. returnM (Some layer)))
    else returnM None) s = (Inr v, s')
   \<Longrightarrow> (v \<noteq> None) = c"
  by (cases "r s") (auto simp: bindM_def getM_def callM_def returnM_def split: if_splits)

lemma pyM_InrD: "pyM r s = (Inr a, s') \<Longrightarrow> r = Inr a \<and> s' = s"
  by (cases r) (auto simp: raiseM_def returnM_def)

lemma PNN_init_builds:
  assumes built: "PNN_init E a = Inr self"
  shows "\<exists>p num_inputs num_pairs input_dim b1 b1' b2 b2'.
     compute_input_dim E b1 (arg_dnn_feature_columns a) (Some False) (Some True)
       = (Inr num_inputs, b1') \<and>
     num_pairs_of num_inputs = Inr num_pairs \<and>
     compute_input_dim E b2 (arg_dnn_feature_columns a) None None = (Inr input_dim, b2') \<and>
     DNN_init E
       ((if arg_use_inner a then num_pairs else 0) + (if arg_use_outter a then num_pairs else 0)
          + input_dim)
       (arg_dnn_hidden_units a) (arg_dnn_activation a) (arg_l2_reg_dnn a) (arg_dnn_dropout a)
       False (arg_init_std a) (arg_device a) = Inr (dnn p) \<and>
     use_inner p = arg_use_inner a \<and> use_outter p = arg_use_outter a \<and>
     (innerproduct p \<noteq> None) = arg_use_inner a \<and>
     (outterproduct p \<noteq> None) = arg_use_outter a \<and>
     PNN_to E p (arg_device a) = Inr self"
proof -
  from built obtain b where "BaseModel_init E (super_args a) = Inr b"
    and "fst (PNN_init_body E a b) = Inr self"
    by (auto simp: PNN_init_def split: sum.splits)
  then obtain s' where body: "PNN_init_body E a b = (Inr self, s')"
    by (cases "PNN_init_body E a b") simp
  have "\<exists>p b1 num_inputs b1' num_pairs b2 input_dim b2'.
     PNN_to E p (arg_device a) = Inr self \<and>
     compute_input_dim E b1 (arg_dnn_feature_columns a) (Some False) (Some True)
       = (Inr num_inputs, b1') \<and>
     num_pairs_of num_inputs = Inr num_pairs \<and>
     compute_input_dim E b2 (arg_dnn_feature_columns a) None None = (Inr input_dim, b2') \<and>
     DNN_init E (product_out_dim (arg_use_inner a) (arg_use_outter a) num_pairs + input_dim)
       (arg_dnn_hidden_units a) (arg_dnn_activation a) (arg_l2_reg_dnn a) (arg_dnn_dropout a)
       False (arg_init_std a) (arg_device a) = Inr (dnn p) \<and>
     use_inner p = arg_use_inner a \<and> use_outter p = arg_use_outter a \<and>
     (innerproduct p \<noteq> None) = arg_use_inner a \<and>
     (outterproduct p \<noteq> None) = arg_use_outter a"
    using body unfolding PNN_init_body_def
    apply (elim bindM_InrE)
    apply (drule callM_InrD)+
    apply (drule getM_InrD)
    apply (drule methodM_InrD)+
    apply (drule pyM_InrD)+
    apply (drule optional_layer_built)
    apply (drule optional_outer_layer_built)
    apply (elim conjE)
    apply (intro exI conjI)
            apply assumption
           apply assumption
          apply assumption
         apply assumption
        apply simp
       apply simp
      apply simp
     apply simp
    apply simp
    done
  then show ?thesis
    unfolding product_out_dim_by_toggles by blast
qed


text \<open>
  C4. The product layer is the one the toggles select: the linear signal, then the
  inner-product signal exactly when \<open>use_inner\<close> holds, then the outer-product signal
  exactly when \<open>use_outter\<close> holds; with both toggles off it is the linear signal
  alone. Correspondingly, a constructor that returns has built the dense network for
  an input dimension of \<open>num_pairs\<close> for each toggle that is on, on top of the input
  dimension of the feature columns, and has built each product layer exactly under
  its toggle; \<open>num_pairs\<close> is the pair count of the number of feature groups.
\<close>

theorem product_layer_selected_by_toggles:
  "product_step E ts self = product_layer_by_toggles E ts self \<and>
   (\<not> use_inner self \<and> \<not> use_outter self \<longrightarrow>
      product_step E ts self = linear_signal_of E ts self) \<and>
   (PNN_init E a = Inr built \<longrightarrow>
      (\<exists>p num_inputs num_pairs input_dim b1 b1' b2 b2'.
         compute_input_dim E b1 (arg_dnn_feature_columns a) (Some False) (Some True)
           = (Inr num_inputs, b1') \<and>
         num_pairs_of num_inputs = Inr num_pairs \<and>
         compute_input_dim E b2 (arg_dnn_feature_columns a) None None = (Inr input_dim, b2') \<and>
         DNN_init E
           ((if arg_use_inner a then num_pairs else 0)
              + (if arg_use_outter a then num_pairs else 0) + input_dim)
           (arg_dnn_hidden_units a) (arg_dnn_activation a) (arg_l2_reg_dnn a)
           (arg_dnn_dropout a) False (arg_init_std a) (arg_device a) = Inr (dnn p) \<and>
         use_inner p = arg_use_inner a \<and> use_outter p = arg_use_outter a \<and>
         (innerproduct p \<noteq> None) = arg_use_inner a \<and>
         (outterproduct p \<noteq> None) = arg_use_outter a \<and>
         PNN_to E p (arg_device a) = Inr built))"
  using product_step_by_toggles [of E ts self] product_step_neither [of self E ts]
    PNN_init_builds [of E a built]
  by blast

theorem product_layer_selected_by_toggles_witness:
  "PNN_init toy (toy_args\<lparr>arg_use_outter := True\<rparr>) = Inr toy_model_both \<and>
   dnn toy_model_both = [3 + 3 + 12, 128, 128] \<and>
   product_step toy [[2, 1, 4], [2, 1, 4], [2, 1, 4]] toy_model_both
     = (Inr [2, 12 + 3 + 3], toy_model_both) \<and>
   product_layer_by_toggles toy [[2, 1, 4], [2, 1, 4], [2, 1, 4]] toy_model_both
     = (Inr [2, 12 + 3 + 3], toy_model_both) \<and>
   product_step toy [[2, 1, 4], [2, 1, 4], [2, 1, 4]]
     (toy_model_both\<lparr>use_inner := False, innerproduct := None\<rparr>)
     = (Inr [2, 12 + 3], toy_model_both\<lparr>use_inner := False, innerproduct := None\<rparr>) \<and>
   product_step toy [[2, 1, 4], [2, 1, 4], [2, 1, 4]] toy_model = (Inr [2, 12 + 3], toy_model) \<and>
   product_step toy [[2, 1, 4], [2, 1, 4], [2, 1, 4]]
     (toy_model\<lparr>use_inner := False, innerproduct := None\<rparr>)
     = (Inr [2, 12], toy_model\<lparr>use_inner := False, innerproduct := None\<rparr>)"
proof -
  let ?ts = "[[2, 1, 4], [2, 1, 4], [2, 1, 4 :: int]]"
  have built: "PNN_init toy (toy_args\<lparr>arg_use_outter := True\<rparr>) = Inr toy_model_both"
    by (simp add: PNN_init_def PNN_init_body_def toy_def toy_args_def default_args_def
        super_args_def toy_columns_def toy_model_def toy_model_both_def methodM_def callM_def
        bindM_def getM_def returnM_def num_pairs_of_def int_truediv2_def round_to_double_def
        bit_length.simps product_out_dim_def index_last_def Let_def)
  have both: "product_step toy ?ts toy_model_both = (Inr [2, 18], toy_model_both)"
    by (simp add: toy_run toy_model_both_def)
  have outer: "product_step toy ?ts (toy_model_both\<lparr>use_inner := False, innerproduct := None\<rparr>)
      = (Inr [2, 15], toy_model_both\<lparr>use_inner := False, innerproduct := None\<rparr>)"
    by (simp add: toy_run toy_model_both_def)
  have inner: "product_step toy ?ts toy_model = (Inr [2, 15], toy_model)"
    by (simp add: toy_run)
  have neither: "product_step toy ?ts (toy_model\<lparr>use_inner := False, innerproduct := None\<rparr>)
      = (Inr [2, 12], toy_model\<lparr>use_inner := False, innerproduct := None\<rparr>)"
    by (simp add: toy_run)
  have dim: "dnn toy_model_both = [18, 128, 128]"
    by (simp add: toy_model_both_def)
  from product_layer_selected_by_toggles
      [of toy ?ts toy_model_both "toy_args\<lparr>arg_use_outter := True\<rparr>" toy_model_both]
    built both outer inner neither dim
  show ?thesis by simp
qed

end
